theory Spec2Isabelle
  imports Main "HOL-Library.AList" "HOL-Library.Sublist"
begin

section \<open>Python values\<close>

text \<open>
  The widget \<^verbatim>\<open>OWGenes\<close> handles dynamically typed values in three places: the
  \<^verbatim>\<open>ncbi_id\<close> and \<^verbatim>\<open>symbol\<close> of a gene, the values of a table's \<^verbatim>\<open>attributes\<close>
  dictionary and the values of a variable's \<^verbatim>\<open>attributes\<close> dictionary. It applies
  \<^verbatim>\<open>str(...)\<close> to them, tests their truth value and compares them with strings.
\<close>

datatype pyval = PyNone | PyBool bool | PyInt int | PyStr string

definition digit_char :: "nat \<Rightarrow> char" where
  "digit_char d = ''0123456789'' ! d"

function str_nat :: "nat \<Rightarrow> string" where
  "str_nat n =
     (if n < 10 then [digit_char n]
      else str_nat (n div 10) @ [digit_char (n mod 10)])"
  by pat_completeness auto
termination
  by (relation "measure id") auto

declare str_nat.simps [simp del]

fun py_str :: "pyval \<Rightarrow> string" where
  "py_str PyNone = ''None''"
| "py_str (PyBool b) = (if b then ''True'' else ''False'')"
| "py_str (PyInt i) = (if i < 0 then CHR ''-'' # str_nat (nat (- i)) else str_nat (nat i))"
| "py_str (PyStr s) = s"

text \<open>Truth value testing: \<^verbatim>\<open>None\<close>, \<^verbatim>\<open>False\<close>, \<^verbatim>\<open>0\<close> and \<^verbatim>\<open>''\<close> are false.\<close>

fun py_bool :: "pyval \<Rightarrow> bool" where
  "py_bool PyNone = False"
| "py_bool (PyBool b) = b"
| "py_bool (PyInt i) = (i \<noteq> 0)"
| "py_bool (PyStr s) = (s \<noteq> [])"

text \<open>\<^verbatim>\<open>v in xs\<close> for a list \<^verbatim>\<open>xs\<close> of strings: only a string equals a string.\<close>

fun py_in :: "pyval \<Rightarrow> string list \<Rightarrow> bool" where
  "py_in (PyStr s) xs = (s \<in> set xs)"
| "py_in _ xs = False"

text \<open>
  \<^verbatim>\<open>str.strip()\<close> removes the leading and the trailing characters for which
  \<^verbatim>\<open>str.isspace\<close> holds. A character of a string is a code point below 256 here (the
  type \<^typ>\<open>char\<close> has no others). Of these, Python takes as whitespace the tab, the line
  feed, the vertical tab, the form feed, the carriage return, the four separators U+001C
  to U+001F, the space, the next-line character U+0085 and the no-break space U+00A0.
\<close>

definition is_space :: "char \<Rightarrow> bool" where
  "is_space c = (of_char c \<in> {9, 10, 11, 12, 13, 28, 29, 30, 31, 32, 133, 160 :: nat})"

definition strip :: "string \<Rightarrow> string" where
  "strip s = rev (dropWhile is_space (rev (dropWhile is_space s)))"

text \<open>\<^verbatim>\<open>sep.join(xs)\<close>\<close>

fun join :: "string \<Rightarrow> string list \<Rightarrow> string" where
  "join sep [] = []"
| "join sep [x] = x"
| "join sep (x # y # ys) = x @ sep @ join sep (y # ys)"

datatype error = IndexError | ValueError | KeyError | AttributeError

text \<open>\<^verbatim>\<open>xs[i]\<close> with Python's negative indices.\<close>

definition py_index :: "'a list \<Rightarrow> int \<Rightarrow> error + 'a" where
  "py_index xs i =
     (if 0 \<le> i \<and> i < int (length xs) then Inr (xs ! nat i)
      else if i < 0 \<and> - i \<le> int (length xs) then Inr (xs ! nat (int (length xs) + i))
      else Inl IndexError)"

text \<open>A dictionary with string keys, as an association list.\<close>

type_synonym 'v dict = "(string \<times> 'v) list"

definition dict_get :: "'v dict \<Rightarrow> string \<Rightarrow> 'v option" where
  "dict_get d k = map_of d k"

definition dict_set :: "'v dict \<Rightarrow> string \<Rightarrow> 'v \<Rightarrow> 'v dict" where
  "dict_set d k v = AList.update k v d"

section \<open>Orange tables\<close>

text \<open>
  The part of \<^verbatim>\<open>Orange.data\<close> the widget uses. A variable has a name, a class and
  an \<^verbatim>\<open>attributes\<close> dictionary; a domain lists attributes, class variables and
  metas; a table has a domain, rows and an \<^verbatim>\<open>attributes\<close> dictionary. Variables of
  one domain are different objects; the model identifies a variable with its contents.
\<close>

datatype var_type = ContinuousVariable | DiscreteVariable | StringVariable | TimeVariable

record variable =
  name :: string
  var_type :: var_type
  var_attributes :: "pyval dict"

record domain =
  attributes :: "variable list"
  class_vars :: "variable list"
  metas :: "variable list"

text \<open>
  A cell is missing (NaN, or the empty string of a string column), a string, or a number
  of a numeric column. Numbers are floats in the source; their type is a parameter here.
\<close>

datatype 'n cell = Missing | Str string | Num 'n

record 'n row_instance =
  inst_x :: "'n cell list"
  inst_y :: "'n cell list"
  inst_metas :: "'n cell list"

record 'n table =
  domain :: domain
  rows :: "'n row_instance list"
  table_attributes :: "pyval dict"

text \<open>
  \<^verbatim>\<open>Domain._indices\<close> is a dictionary built when the domain is constructed: it maps
  each variable and each name to a non-negative index (attributes, then class variables)
  or to a meta. Later entries overwrite earlier ones, and metas are entered last.
\<close>

datatype pos = Col nat | Meta nat

fun find_last :: "('a \<Rightarrow> bool) \<Rightarrow> 'a list \<Rightarrow> nat option" where
  "find_last P [] = None"
| "find_last P (x # xs) =
     (case find_last P xs of
        Some i \<Rightarrow> Some (Suc i)
      | None \<Rightarrow> if P x then Some 0 else None)"

definition domain_index :: "domain \<Rightarrow> (variable \<Rightarrow> bool) \<Rightarrow> pos option" where
  "domain_index d P =
     (case find_last P (metas d) of
        Some j \<Rightarrow> Some (Meta j)
      | None \<Rightarrow>
          (case find_last P (attributes d @ class_vars d) of
             Some i \<Rightarrow> Some (Col i)
           | None \<Rightarrow> None))"

definition by_name :: "string \<Rightarrow> variable \<Rightarrow> bool" where
  "by_name k v = (name v = k)"

definition by_var :: "variable \<Rightarrow> variable \<Rightarrow> bool" where
  "by_var k v = (v = k)"

text \<open>\<^verbatim>\<open>domain[idx]\<close> for an index found in \<^verbatim>\<open>_indices\<close>.\<close>

definition domain_at :: "domain \<Rightarrow> pos \<Rightarrow> variable" where
  "domain_at d p =
     (case p of Col i \<Rightarrow> (attributes d @ class_vars d) ! i | Meta j \<Rightarrow> metas d ! j)"

definition pos_valid :: "domain \<Rightarrow> pos \<Rightarrow> bool" where
  "pos_valid d p =
     (case p of
        Col i \<Rightarrow> i < length (attributes d) + length (class_vars d)
      | Meta j \<Rightarrow> j < length (metas d))"

definition same_shape :: "domain \<Rightarrow> domain \<Rightarrow> bool" where
  "same_shape d d' \<longleftrightarrow>
     length (attributes d) = length (attributes d') \<and>
     length (class_vars d) = length (class_vars d') \<and>
     length (metas d) = length (metas d')"

text \<open>
  Reading and writing one cell of a row. The arrays of a table are rectangular; a row
  that is shorter than its domain reads as missing.
\<close>

definition nth_cell :: "'n cell list \<Rightarrow> nat \<Rightarrow> 'n cell" where
  "nth_cell cs i = (if i < length cs then cs ! i else Missing)"

definition set_cell :: "'n cell list \<Rightarrow> nat \<Rightarrow> 'n cell \<Rightarrow> 'n cell list" where
  "set_cell cs i c =
     (if i < length cs then cs[i := c] else cs @ replicate (i - length cs) Missing @ [c])"

definition inst_get :: "domain \<Rightarrow> 'n row_instance \<Rightarrow> pos \<Rightarrow> 'n cell" where
  "inst_get d r p =
     (case p of
        Col i \<Rightarrow>
          if i < length (attributes d) then nth_cell (inst_x r) i
          else nth_cell (inst_y r) (i - length (attributes d))
      | Meta j \<Rightarrow> nth_cell (inst_metas r) j)"

definition inst_set :: "domain \<Rightarrow> 'n row_instance \<Rightarrow> pos \<Rightarrow> 'n cell \<Rightarrow> 'n row_instance" where
  "inst_set d r p c =
     (case p of
        Col i \<Rightarrow>
          if i < length (attributes d) then r\<lparr>inst_x := set_cell (inst_x r) i c\<rparr>
          else r\<lparr>inst_y := set_cell (inst_y r) (i - length (attributes d)) c\<rparr>
      | Meta j \<Rightarrow> r\<lparr>inst_metas := set_cell (inst_metas r) j c\<rparr>)"

text \<open>
  \<^verbatim>\<open>Table.from_table(domain, source)\<close>: every column of the new domain is taken from
  the source by looking the variable up in the source's domain; a variable the source
  does not have gives a column of missing values. \<^verbatim>\<open>source.transform(domain)\<close> is
  \<^verbatim>\<open>from_table(domain, source)\<close>. The \<^verbatim>\<open>attributes\<close> dictionary is carried over.
\<close>

definition convert_cell :: "domain \<Rightarrow> 'n row_instance \<Rightarrow> variable \<Rightarrow> 'n cell" where
  "convert_cell src r v =
     (case domain_index src (by_var v) of None \<Rightarrow> Missing | Some p \<Rightarrow> inst_get src r p)"

definition convert_row :: "domain \<Rightarrow> domain \<Rightarrow> 'n row_instance \<Rightarrow> 'n row_instance" where
  "convert_row d src r =
     \<lparr>inst_x = map (convert_cell src r) (attributes d),
      inst_y = map (convert_cell src r) (class_vars d),
      inst_metas = map (convert_cell src r) (metas d)\<rparr>"

definition from_table :: "domain \<Rightarrow> 'n table \<Rightarrow> 'n table" where
  "from_table d src =
     \<lparr>domain = d, rows = map (convert_row d (domain src)) (rows src),
      table_attributes = table_attributes src\<rparr>"

definition transform :: "'n table \<Rightarrow> domain \<Rightarrow> 'n table" where
  "transform t d = from_table d t"

text \<open>
  \<^verbatim>\<open>table.get_column_view(var)[0]\<close>: \<^verbatim>\<open>domain.index\<close> raises \<^verbatim>\<open>ValueError\<close> for a
  variable that is not in the domain.
\<close>

definition get_column_view :: "'n table \<Rightarrow> variable \<Rightarrow> error + 'n cell list" where
  "get_column_view t v =
     (case domain_index (domain t) (by_var v) of
        None \<Rightarrow> Inl ValueError
      | Some p \<Rightarrow> Inr (map (\<lambda>r. inst_get (domain t) r p) (rows t)))"

text \<open>
  \<^verbatim>\<open>np.unique(column).size\<close>: the number of different values of the column. The
  missing value counts once, as NumPy counts NaN by default.
\<close>

definition unique_size :: "'n cell list \<Rightarrow> nat" where
  "unique_size col = length (remdups col)"

text \<open>
  \<^verbatim>\<open>table[indices]\<close> for a list of row indices; the widget takes the indices from
  \<^verbatim>\<open>enumerate(table)\<close>, so they are indices of rows.
\<close>

definition table_rows_at :: "'n table \<Rightarrow> nat list \<Rightarrow> 'n table" where
  "table_rows_at t idx = t\<lparr>rows := map (\<lambda>i. rows t ! i) idx\<rparr>"

text \<open>
  \<^verbatim>\<open>Values([FilterStringList(var, values)])(table)\<close> keeps the rows whose value in the
  column of \<^verbatim>\<open>var\<close> is one of the strings \<^verbatim>\<open>values\<close>; a number or a missing value
  equals no string.
\<close>

fun cell_in :: "'n cell \<Rightarrow> string list \<Rightarrow> bool" where
  "cell_in (Str s) xs = (s \<in> set xs)"
| "cell_in _ xs = False"

definition filter_string_list :: "'n table \<Rightarrow> variable \<Rightarrow> string list \<Rightarrow> error + 'n table" where
  "filter_string_list t v xs =
     (case domain_index (domain t) (by_var v) of
        None \<Rightarrow> Inl ValueError
      | Some p \<Rightarrow> Inr (t\<lparr>rows := filter (\<lambda>r. cell_in (inst_get (domain t) r p) xs) (rows t)\<rparr>))"

text \<open>
  \<^verbatim>\<open>DomainModel(valid_types=(StringVariable, DiscreteVariable))\<close> lists the class
  variables, the metas and the attributes of the valid types, with a separator between
  the sections that are not empty.
\<close>

datatype model_item = Separator | Var variable

definition valid_type :: "variable \<Rightarrow> bool" where
  "valid_type v = (var_type v = StringVariable \<or> var_type v = DiscreteVariable)"

fun join_sections :: "model_item list list \<Rightarrow> model_item list" where
  "join_sections [] = []"
| "join_sections (s # ss) =
     (if s = [] then join_sections ss
      else if join_sections ss = [] then s
      else s @ Separator # join_sections ss)"

definition set_domain :: "domain option \<Rightarrow> model_item list" where
  "set_domain dm =
     (case dm of
        None \<Rightarrow> []
      | Some d \<Rightarrow>
          join_sections
            [map Var (filter valid_type (class_vars d)),
             map Var (filter valid_type (metas d)),
             map Var (filter valid_type (attributes d))])"

text \<open>All variables of a domain, and the number of unique values of the column of one.\<close>

definition domain_variables :: "domain \<Rightarrow> variable list" where
  "domain_variables d = attributes d @ class_vars d @ metas d"

definition column_unique :: "'n table \<Rightarrow> variable \<Rightarrow> nat" where
  "column_unique t col =
     (case get_column_view t col of Inl e \<Rightarrow> 0 | Inr column \<Rightarrow> unique_size column)"

section \<open>Genes and the gene matcher\<close>

text \<open>
  \<^verbatim>\<open>Gene\<close> and \<^verbatim>\<open>GeneMatcher\<close> are defined in \<^verbatim>\<open>orangecontrib.bioinformatics.ncbi.gene\<close>,
  which is not among the sources. The widget reads three fields of a gene. Reading
  \<^verbatim>\<open>gene.symbol\<close> can raise \<^verbatim>\<open>AttributeError\<close> (the widget catches it): then \<open>symbol\<close>
  is \<open>None\<close>.
\<close>

record gene =
  input_name :: string
  ncbi_id :: pyval
  symbol :: "pyval option"

record gene_matcher =
  genes :: "gene list"
  organism :: string

definition has_ncbi_id :: "gene \<Rightarrow> bool" where
  "has_ncbi_id g = py_bool (ncbi_id g)"

text \<open>
  Modelled from the spec: \<^verbatim>\<open>GeneMatcher.get_known_genes\<close> is not among the sources. The
  known genes are the genes that the matcher resolved to an Entrez identifier.
\<close>

definition get_known_genes :: "gene_matcher \<Rightarrow> gene list" where
  "get_known_genes gm = filter has_ncbi_id (genes gm)"

text \<open>
  Modelled from the spec: the setter of \<^verbatim>\<open>GeneMatcher.genes\<close> is not among the sources.
  It takes the input names and holds one gene for each of them, which has no Entrez
  identifier before the matcher has run.
\<close>

definition new_gene :: "string \<Rightarrow> gene" where
  "new_gene n = \<lparr>input_name = n, ncbi_id = PyNone, symbol = None\<rparr>"

text \<open>
  The result of \<^verbatim>\<open>GeneMatcher.to_data_table(selected_genes=...)\<close>, which is not among
  the sources either: the report is represented by the matcher and the selection it is
  made from.
\<close>

datatype report = Report gene_matcher "string list option"

section \<open>The widget\<close>

text \<open>
  What the widget imports and this file does not define: the keys of
  \<^verbatim>\<open>widgets.utils.data\<close>, the conversion of a string that NumPy stores into a float
  column (\<open>None\<close>: \<^verbatim>\<open>ValueError\<close>), \<^verbatim>\<open>Variable.str_val\<close> on a number, and
  \<^verbatim>\<open>Gene.to_list\<close>.
\<close>

record 'n env =
  TAX_ID :: string
  GENE_AS_ATTRIBUTE_NAME :: string
  GENE_ID_COLUMN :: string
  GENE_ID_ATTRIBUTE :: string
  to_number :: "string \<Rightarrow> 'n option"
  str_val :: "variable \<Rightarrow> 'n \<Rightarrow> string"
  to_list :: "gene \<Rightarrow> string list"

record gene_info_model =
  model_genes :: "gene list option"
  data_table :: "string list list option"
  wrapped_table :: "string list list"

record unknown_gene_info_model =
  unknown_genes :: "gene list"
  wrapped_list :: "string list"

record 'n widget =
  target_database :: string
  input_data :: "'n table option"
  input_genes :: "string list option"
  tax_id :: "string option"
  organisms :: "string list"
  selected_organism :: int
  exclude_unmatched :: bool
  replace_id_with_symbol :: bool
  selected_gene_col :: "variable option"
  use_attr_names :: bool
  gene_columns_model :: "model_item list"
  gene_matcher :: "gene_matcher option"
  table_model :: gene_info_model
  unknown_model :: unknown_gene_info_model
  replace_radio_enabled :: bool
  exclude_radio_enabled :: bool

text \<open>
  A method that changes the widget returns the widget as the method left it and the
  exception it raised, if any: an exception does not undo the assignments before it.
\<close>

type_synonym 'n outcome = "'n widget \<times> error option"

subsection \<open>The two display models\<close>

definition GeneInfoModel_initialize ::
  "'n env \<Rightarrow> gene_info_model \<Rightarrow> gene list \<Rightarrow> gene_info_model" where
  "GeneInfoModel_initialize E m list_of_genes =
     (let tab = map (to_list E) (filter (\<lambda>gene. py_bool (ncbi_id gene)) list_of_genes)
      in m\<lparr>model_genes := Some list_of_genes, data_table := Some tab, wrapped_table := tab\<rparr>)"

definition GeneInfoModel_clear :: "gene_info_model \<Rightarrow> gene_info_model" where
  "GeneInfoModel_clear m = m\<lparr>wrapped_table := [[]]\<rparr>"

definition UnknownGeneInfoModel_initialize ::
  "unknown_gene_info_model \<Rightarrow> gene list \<Rightarrow> unknown_gene_info_model" where
  "UnknownGeneInfoModel_initialize m list_of_genes =
     m\<lparr>unknown_genes := list_of_genes,
       wrapped_list :=
         [join '', '' (map input_name (filter (\<lambda>gene. \<not> py_bool (ncbi_id gene)) list_of_genes))]\<rparr>"

definition UnknownGeneInfoModel_clear :: "unknown_gene_info_model \<Rightarrow> unknown_gene_info_model" where
  "UnknownGeneInfoModel_clear m = m\<lparr>wrapped_list := []\<rparr>"

subsection \<open>Reading the input\<close>

definition reset_widget_state :: "'n widget \<Rightarrow> 'n widget" where
  "reset_widget_state w =
     w\<lparr>table_model := GeneInfoModel_clear (table_model w),
       unknown_model := UnknownGeneInfoModel_clear (unknown_model w)\<rparr>"

definition get_selected_organism :: "'n widget \<Rightarrow> error + string" where
  "get_selected_organism w = py_index (organisms w) (selected_organism w)"

definition is_candidate :: "variable \<Rightarrow> bool" where
  "is_candidate col = (var_type col = DiscreteVariable \<or> var_type col = StringVariable)"

text \<open>
  The generator of \<^verbatim>\<open>gene_column_identifier\<close>: the pairs (variable, number of unique
  values) of the items of \<^verbatim>\<open>gene_columns_model\<close> that are discrete or string variables.
  Without input data, \<^verbatim>\<open>self.input_data.get_column_view\<close> raises \<^verbatim>\<open>AttributeError\<close>.
\<close>

fun candidates :: "'n table option \<Rightarrow> model_item list \<Rightarrow> error + (variable \<times> nat) list" where
  "candidates data [] = Inr []"
| "candidates data (Separator # items) = candidates data items"
| "candidates data (Var col # items) =
     (if is_candidate col then
        (case data of
           None \<Rightarrow> Inl AttributeError
         | Some t \<Rightarrow>
             (case get_column_view t col of
                Inl e \<Rightarrow> Inl e
              | Inr column \<Rightarrow>
                  (case candidates data items of
                     Inl e \<Rightarrow> Inl e
                   | Inr cs \<Rightarrow> Inr ((col, unique_size column) # cs))))
      else candidates data items)"

text \<open>
  \<^verbatim>\<open>sorted(candidates, key=lambda x: x[1])[-1]\<close>: Python's sort is stable, as
  \<^const>\<open>sort_key\<close> is; the last element of an empty list raises \<^verbatim>\<open>IndexError\<close>.
\<close>

definition gene_column_identifier :: "'n widget \<Rightarrow> error + variable" where
  "gene_column_identifier w =
     (case candidates (input_data w) (gene_columns_model w) of
        Inl e \<Rightarrow> Inl e
      | Inr cs \<Rightarrow>
          (case py_index (sort_key snd cs) (- 1) of
             Inl e \<Rightarrow> Inl e
           | Inr (best_candidate, _) \<Rightarrow> Inr best_candidate))"

definition find_genes_location :: "'n widget \<Rightarrow> 'n outcome" where
  "find_genes_location w =
     (case input_data w of
        None \<Rightarrow> (w, Some AttributeError)
      | Some t \<Rightarrow>
          if attributes (domain t) = [] then
            (if selected_gene_col w = None then
               (case gene_column_identifier w of
                  Inl e \<Rightarrow> (w, Some e)
                | Inr col \<Rightarrow> (w\<lparr>selected_gene_col := Some col, use_attr_names := False\<rparr>, None))
             else (w, None))
          else (w, None))"

text \<open>
  \<^verbatim>\<open>str(value)\<close> of a cell of the column of a variable; a missing value prints as
  \<^verbatim>\<open>?\<close>. \<^verbatim>\<open>np.isnan(value)\<close> holds for the missing cell.
\<close>

definition str_cell :: "'n env \<Rightarrow> variable \<Rightarrow> 'n cell \<Rightarrow> string" where
  "str_cell E v c = (case c of Missing \<Rightarrow> ''?'' | Str s \<Rightarrow> s | Num n \<Rightarrow> str_val E v n)"

definition column_names :: "'n env \<Rightarrow> 'n table \<Rightarrow> variable \<Rightarrow> error + string list" where
  "column_names E t col =
     (case domain_index (domain t) (by_var col) of
        None \<Rightarrow> Inl ValueError
      | Some p \<Rightarrow>
          Inr (map (\<lambda>e. str_cell E col (inst_get (domain t) e p))
                 (filter (\<lambda>e. inst_get (domain t) e p \<noteq> Missing) (rows t))))"

text \<open>A table is true when it has a row; \<^verbatim>\<open>None\<close> is false.\<close>

definition table_bool :: "'n table option \<Rightarrow> bool" where
  "table_bool data = (case data of None \<Rightarrow> False | Some t \<Rightarrow> rows t \<noteq> [])"

definition gene_names_from_table :: "'n env \<Rightarrow> 'n widget \<Rightarrow> 'n outcome" where
  "gene_names_from_table E w =
     (let w1 = w\<lparr>input_genes := Some []\<rparr> in
      case input_data w1 of
        None \<Rightarrow> (w1, None)
      | Some t \<Rightarrow>
          if \<not> table_bool (Some t) then (w1, None)
          else if use_attr_names w1 then
            (w1\<lparr>input_genes := Some (map (\<lambda>attr. strip (name attr)) (attributes (domain t)))\<rparr>,
             None)
          else
            (case (case selected_gene_col w1 of
                     None \<Rightarrow> gene_column_identifier w1
                   | Some col \<Rightarrow> Inr col) of
               Inl e \<Rightarrow> (w1, Some e)
             | Inr col \<Rightarrow>
                 (let w2 = w1\<lparr>selected_gene_col := Some col\<rparr> in
                  case column_names E t col of
                    Inl e \<Rightarrow> (w2, Some e)
                  | Inr ns \<Rightarrow> (w2\<lparr>input_genes := Some ns\<rparr>, None))))"

definition update_gene_matcher :: "'n env \<Rightarrow> 'n widget \<Rightarrow> 'n outcome" where
  "update_gene_matcher E w =
     (case gene_names_from_table E w of
        (w1, Some e) \<Rightarrow> (w1, Some e)
      | (w1, None) \<Rightarrow>
          (case get_selected_organism w1 of
             Inl e \<Rightarrow> (w1, Some e)
           | Inr org \<Rightarrow>
               (w1\<lparr>gene_matcher :=
                     Some \<lparr>genes = map new_gene (case input_genes w1 of None \<Rightarrow> [] | Some ns \<Rightarrow> ns),
                           organism = org\<rparr>\<rparr>,
                None)))"

text \<open>
  \<^verbatim>\<open>on_input_option_change\<close> resets the views, builds the matcher and calls
  \<^verbatim>\<open>match_genes\<close>, which hands \<^verbatim>\<open>run_matcher\<close> to a worker of the thread pool and
  returns. The end of the run is the later step \<open>handle_matcher_results\<close>.
\<close>

definition on_input_option_change :: "'n env \<Rightarrow> 'n widget \<Rightarrow> 'n outcome" where
  "on_input_option_change E w = update_gene_matcher E (reset_widget_state w)"

text \<open>
  \<^verbatim>\<open>openContext\<close> restores the context settings \<^verbatim>\<open>selected_gene_col\<close> and
  \<^verbatim>\<open>use_attr_names\<close> when the settings handler has stored a context for the domain.
\<close>

definition open_context :: "(variable option \<times> bool) option \<Rightarrow> 'n widget \<Rightarrow> 'n widget" where
  "open_context stored w =
     (case stored of
        None \<Rightarrow> w
      | Some (col, flag) \<Rightarrow> w\<lparr>selected_gene_col := col, use_attr_names := flag\<rparr>)"

definition list_index :: "'a list \<Rightarrow> 'a \<Rightarrow> nat" where
  "list_index xs x = length (takeWhile (\<lambda>y. y \<noteq> x) xs)"

definition handle_input ::
  "'n env \<Rightarrow> (variable option \<times> bool) option \<Rightarrow> 'n widget \<Rightarrow> 'n table option \<Rightarrow> 'n outcome" where
  "handle_input E stored w data =
     (let w1 = reset_widget_state (w\<lparr>input_data := None, input_genes := None\<rparr>);
          w2 = w1\<lparr>gene_columns_model := set_domain None, selected_gene_col := None\<rparr>
      in case data of
           None \<Rightarrow> (w2, None)
         | Some t \<Rightarrow>
             if \<not> table_bool (Some t) then (w2, None)
             else
               (let w3 = w2\<lparr>input_data := Some t,
                            gene_columns_model := set_domain (Some (domain t))\<rparr>;
                    tid = py_str (case dict_get (table_attributes t) (TAX_ID E) of
                                    None \<Rightarrow> PyStr ''9606''
                                  | Some v \<Rightarrow> v);
                    w4 = w3\<lparr>tax_id := Some tid,
                            use_attr_names :=
                              (case dict_get (table_attributes t) (GENE_AS_ATTRIBUTE_NAME E) of
                                 None \<Rightarrow> use_attr_names w3
                               | Some v \<Rightarrow> py_bool v)\<rparr>;
                    w5 = (if tid \<in> set (organisms w4)
                          then w4\<lparr>selected_organism := int (list_index (organisms w4) tid)\<rparr>
                          else w4)
                in case find_genes_location (open_context stored w5) of
                     (w6, Some e) \<Rightarrow> (w6, Some e)
                   | (w6, None) \<Rightarrow> on_input_option_change E w6))"

subsection \<open>The output\<close>

definition get_target_ids :: "'n widget \<Rightarrow> error + string list" where
  "get_target_ids w =
     (case gene_matcher w of
        None \<Rightarrow> Inl AttributeError
      | Some gm \<Rightarrow>
          Inr (map (\<lambda>gene. if py_bool (ncbi_id gene) then py_str (ncbi_id gene) else ''?'')
                 (genes gm)))"

definition toggle_radio_options :: "'n widget \<Rightarrow> 'n outcome" where
  "toggle_radio_options w =
     (let w1 = w\<lparr>replace_radio_enabled := use_attr_names w\<rparr> in
      case gene_matcher w1 of
        None \<Rightarrow> (w1, Some AttributeError)
      | Some gm \<Rightarrow>
          if genes gm \<noteq> [] then
            (w1\<lparr>exclude_radio_enabled := (length (genes gm) \<noteq> length (get_known_genes gm)),
                exclude_unmatched := (length (genes gm) \<noteq> length (get_known_genes gm))\<rparr>,
             None)
          else (w1, None))"

text \<open>
  \<^verbatim>\<open>col[:] = gene_ids\<close> on a column of \<open>n\<close> rows. NumPy takes a list of \<open>n\<close>
  values, spreads a list of one value over the column, and raises \<^verbatim>\<open>ValueError\<close> for
  any other length. The column of a string variable holds objects and keeps the strings;
  every other column is taken to be a float array, which converts them.
\<close>

definition store_cells :: "'n env \<Rightarrow> variable \<Rightarrow> string list \<Rightarrow> error + 'n cell list" where
  "store_cells E v ids =
     (if var_type v = StringVariable then Inr (map Str ids)
      else (case those (map (to_number E) ids) of
              None \<Rightarrow> Inl ValueError
            | Some ns \<Rightarrow> Inr (map Num ns)))"

definition broadcast :: "nat \<Rightarrow> 'a list \<Rightarrow> 'a list option" where
  "broadcast n ids =
     (if length ids = n then Some ids
      else if length ids = 1 then Some (replicate n (hd ids))
      else None)"

definition assign_column ::
  "'n env \<Rightarrow> variable \<Rightarrow> nat \<Rightarrow> string list \<Rightarrow> error + 'n cell list" where
  "assign_column E v n ids =
     (case broadcast n ids of
        None \<Rightarrow> Inl ValueError
      | Some ids' \<Rightarrow> store_cells E v ids')"

definition known_ids :: "string list \<Rightarrow> string list" where
  "known_ids gene_ids = filter (\<lambda>gid. gid \<noteq> ''?'') gene_ids"

definition string_variable :: "string \<Rightarrow> variable" where
  "string_variable n = \<lparr>name = n, var_type = StringVariable, var_attributes = []\<rparr>"

text \<open>
  Genes are in rows: lines 500 to 531 of the source. First the variable of the gene
  column and the metas of the output domain (lines 502 to 507).
\<close>

definition gene_var_of :: "'n widget \<Rightarrow> domain \<Rightarrow> variable \<times> variable list" where
  "gene_var_of w d =
     (case domain_index d (by_name (target_database w)) of
        Some p \<Rightarrow> (domain_at d p, metas d)
      | None \<Rightarrow>
          (string_variable (target_database w), metas d @ [string_variable (target_database w)]))"

text \<open>
  \<^verbatim>\<open>col, _ = table.get_column_view(gene_var)\<close> and \<^verbatim>\<open>col[:] = gene_ids\<close>: the view
  is the column of the table, so the assignment changes the table.
\<close>

definition write_column ::
  "'n env \<Rightarrow> 'n table \<Rightarrow> variable \<Rightarrow> string list \<Rightarrow> error + 'n table" where
  "write_column E tab v ids =
     (case domain_index (domain tab) (by_var v) of
        None \<Rightarrow> Inl ValueError
      | Some p \<Rightarrow>
          (case assign_column E v (length (rows tab)) ids of
             Inl e \<Rightarrow> Inl e
           | Inr col \<Rightarrow>
               Inr (tab\<lparr>rows := map2 (\<lambda>r c. inst_set (domain tab) r p c) (rows tab) col\<rparr>)))"

text \<open>
  \<^verbatim>\<open>str(row[gene_var])\<close> for a row of a table that has the variable, and the indices of
  the rows that the selection holds (lines 518 and 519).
\<close>

definition row_str :: "'n env \<Rightarrow> 'n table \<Rightarrow> variable \<Rightarrow> 'n row_instance \<Rightarrow> string" where
  "row_str E tab v r =
     str_cell E v
       (case domain_index (domain tab) (by_var v) of
          None \<Rightarrow> Missing
        | Some p \<Rightarrow> inst_get (domain tab) r p)"

definition selected_rows :: "'n env \<Rightarrow> 'n table \<Rightarrow> variable \<Rightarrow> string list \<Rightarrow> nat list" where
  "selected_rows E tab v selected_genes =
     filter (\<lambda>row_index. row_str E tab v (rows tab ! row_index) \<in> set selected_genes)
       [0..<length (rows tab)]"

text \<open>
  The rows of the output domain \<open>dm\<close> before any row is dropped: the rows of the input,
  each with its cell of \<open>col\<close> in the gene column \<open>p\<close>.
\<close>

definition written_rows ::
  "domain \<Rightarrow> domain \<Rightarrow> pos \<Rightarrow> 'n row_instance list \<Rightarrow> 'n cell list \<Rightarrow> 'n row_instance list" where
  "written_rows dm d0 p rs col = map2 (\<lambda>r c. inst_set dm (convert_row dm d0 r) p c) rs col"

definition commit_rows ::
  "'n env \<Rightarrow> 'n widget \<Rightarrow> 'n table \<Rightarrow> string list \<Rightarrow> string list \<Rightarrow> error + 'n table" where
  "commit_rows E w input gene_ids selected_genes =
     (let known_genes = known_ids gene_ids;
          gene_var = fst (gene_var_of w (domain input));
          dm = \<lparr>attributes = attributes (domain input),
                class_vars = class_vars (domain input),
                metas = snd (gene_var_of w (domain input))\<rparr>
      in case write_column E (transform input dm) gene_var gene_ids of
           Inl e \<Rightarrow> Inl e
         | Inr tab1 \<Rightarrow>
             (let rows_selected = selected_rows E tab1 gene_var selected_genes
              in case get_selected_organism w of
                   Inl e \<Rightarrow> Inl e
                 | Inr org \<Rightarrow>
                     (let tab2 = tab1\<lparr>table_attributes :=
                            dict_set
                              (dict_set
                                 (dict_set (table_attributes tab1) (TAX_ID E) (PyStr org))
                                 (GENE_AS_ATTRIBUTE_NAME E) (PyBool False))
                              (GENE_ID_COLUMN E) (PyStr (target_database w))\<rparr>;
                          tab3 = (if rows_selected \<noteq> [] then table_rows_at tab2 rows_selected
                                  else tab2)
                      in if exclude_unmatched w
                         then filter_string_list tab3 gene_var known_genes
                         else Inr tab3)))"

text \<open>
  Genes are in columns: lines 537 to 575 of the source. \<^verbatim>\<open>table.domain\<close> is a copy of
  the input domain; the loop changes its variables in place. The names that
  \<^verbatim>\<open>gene.input_name in table.domain\<close> and \<^verbatim>\<open>table.domain[gene.input_name]\<close> look up are
  the keys of the copy's \<^verbatim>\<open>_indices\<close>, that is, the names at the time of the copy
  (\<open>d0\<close> below). The copied variables share their \<^verbatim>\<open>attributes\<close> dictionaries with
  the variables of the input; the model does not record that change of the input, and no
  property below is about it.
\<close>

definition update_variable :: "domain \<Rightarrow> pos \<Rightarrow> (variable \<Rightarrow> variable) \<Rightarrow> domain" where
  "update_variable d p f =
     (case p of
        Col i \<Rightarrow>
          if i < length (attributes d)
          then d\<lparr>attributes := (attributes d)[i := f (attributes d ! i)]\<rparr>
          else d\<lparr>class_vars :=
                   (class_vars d)[i - length (attributes d) :=
                                    f (class_vars d ! (i - length (attributes d)))]\<rparr>
      | Meta j \<Rightarrow> d\<lparr>metas := (metas d)[j := f (metas d ! j)]\<rparr>)"

definition target_id :: "gene \<Rightarrow> pyval" where
  "target_id gene = PyStr (if py_bool (ncbi_id gene) then py_str (ncbi_id gene) else ''?'')"

text \<open>The two assignments to the variable of a gene, lines 543 to 551.\<close>

definition annotate_variable :: "'n widget \<Rightarrow> gene \<Rightarrow> variable \<Rightarrow> variable" where
  "annotate_variable w gene v =
     (let v1 = v\<lparr>var_attributes :=
                  dict_set (var_attributes v) (target_database w) (target_id gene)\<rparr>
      in if replace_id_with_symbol w then
           (case symbol gene of None \<Rightarrow> v1 | Some s \<Rightarrow> v1\<lparr>name := py_str s\<rparr>)
         else v1)"

definition annotate :: "'n widget \<Rightarrow> domain \<Rightarrow> gene \<Rightarrow> domain \<Rightarrow> domain" where
  "annotate w d0 gene d =
     (case domain_index d0 (by_name (input_name gene)) of
        None \<Rightarrow> d
      | Some p \<Rightarrow> update_variable d p (annotate_variable w gene))"

definition annotate_all :: "'n widget \<Rightarrow> domain \<Rightarrow> gene list \<Rightarrow> domain" where
  "annotate_all w d0 gs = fold (annotate w d0) gs d0"

definition is_selected :: "string \<Rightarrow> string list \<Rightarrow> variable \<Rightarrow> bool" where
  "is_selected target selected_genes column =
     (case dict_get (var_attributes column) target of
        None \<Rightarrow> False
      | Some v \<Rightarrow> py_str v \<in> set selected_genes)"

text \<open>
  \<^verbatim>\<open>[col for col in output_attrs if col.attributes[target] in known_genes]\<close>: a column
  without the key raises \<^verbatim>\<open>KeyError\<close>.
\<close>

fun exclude_unknown :: "string \<Rightarrow> string list \<Rightarrow> variable list \<Rightarrow> error + variable list" where
  "exclude_unknown target known_genes [] = Inr []"
| "exclude_unknown target known_genes (col # cols) =
     (case dict_get (var_attributes col) target of
        None \<Rightarrow> Inl KeyError
      | Some v \<Rightarrow>
          (case exclude_unknown target known_genes cols of
             Inl e \<Rightarrow> Inl e
           | Inr out \<Rightarrow> Inr (if py_in v known_genes then col # out else out)))"

definition commit_columns ::
  "'n env \<Rightarrow> 'n widget \<Rightarrow> 'n table \<Rightarrow> gene_matcher \<Rightarrow> string list \<Rightarrow> string list
     \<Rightarrow> error + 'n table" where
  "commit_columns E w input gm gene_ids selected_genes =
     (let known_genes = known_ids gene_ids;
          d0 = domain input;
          tab = transform input d0;
          d1 = annotate_all w d0 (genes gm);
          selected = filter (is_selected (target_database w) selected_genes) (attributes d1);
          output_attrs = (if selected \<noteq> [] then selected else attributes d1)
      in case (if exclude_unmatched w
               then exclude_unknown (target_database w) known_genes output_attrs
               else Inr output_attrs) of
           Inl e \<Rightarrow> Inl e
         | Inr out \<Rightarrow>
             (let dm = \<lparr>attributes = out, class_vars = class_vars d1, metas = metas d1\<rparr>;
                  tab1 = from_table dm (tab\<lparr>domain := d1\<rparr>)
              in case get_selected_organism w of
                   Inl e \<Rightarrow> Inl e
                 | Inr org \<Rightarrow>
                     Inr (tab1\<lparr>table_attributes :=
                            dict_set
                              (dict_set
                                 (dict_set (table_attributes tab1) (TAX_ID E) (PyStr org))
                                 (GENE_AS_ATTRIBUTE_NAME E) (PyBool True))
                              (GENE_ID_ATTRIBUTE E) (PyStr (target_database w))\<rparr>)))"

text \<open>An identifier of a gene that the matcher resolved.\<close>

definition is_known_id :: "gene_matcher \<Rightarrow> string \<Rightarrow> bool" where
  "is_known_id gm s =
     (s \<noteq> ''?'' \<and> (\<exists>g \<in> set (genes gm). py_bool (ncbi_id g) \<and> py_str (ncbi_id g) = s))"

text \<open>
  What \<^verbatim>\<open>commit\<close> sends, in the order of the calls of \<^verbatim>\<open>send\<close>. The selection of the
  table view (the Entrez identifiers of the selected rows) is an argument.
\<close>

datatype 'n signal = Data "'n table option" | Genes "report option"

definition commit :: "'n env \<Rightarrow> 'n widget \<Rightarrow> string list \<Rightarrow> error + 'n signal list" where
  "commit E w selected_genes =
     (case get_target_ids w of
        Inl e \<Rightarrow> Inl e
      | Inr gene_ids \<Rightarrow>
          if known_ids gene_ids = [] then Inr [Data None, Genes None]
          else
            (case (input_data w, gene_matcher w) of
               (Some input, Some gm) \<Rightarrow>
                 (let gm_table = Report gm (if selected_genes \<noteq> [] then Some selected_genes
                                            else None)
                  in if \<not> use_attr_names w then
                       (case commit_rows E w input gene_ids selected_genes of
                          Inl e \<Rightarrow> Inl e
                        | Inr tab \<Rightarrow> Inr [Data (Some tab), Data (Some tab), Genes (Some gm_table)])
                     else
                       (case commit_columns E w input gm gene_ids selected_genes of
                          Inl e \<Rightarrow> Inl e
                        | Inr tab \<Rightarrow> Inr [Data (Some tab), Genes (Some gm_table)]))
             | _ \<Rightarrow> Inl AttributeError))"

text \<open>
  \<^verbatim>\<open>_handle_matcher_results\<close> runs when the worker has finished. The table view gets
  its model anew, so the selection that \<^verbatim>\<open>commit\<close> reads is empty.
\<close>

definition handle_matcher_results ::
  "'n env \<Rightarrow> 'n widget \<Rightarrow> 'n widget \<times> (error + 'n signal list)" where
  "handle_matcher_results E w =
     (case toggle_radio_options w of
        (w1, Some e) \<Rightarrow> (w1, Inl e)
      | (w1, None) \<Rightarrow>
          (case gene_matcher w1 of
             None \<Rightarrow> (w1, Inl AttributeError)
           | Some gm \<Rightarrow>
               (let w2 = w1\<lparr>table_model := GeneInfoModel_initialize E (table_model w1) (genes gm)\<rparr>;
                    w3 = w2\<lparr>unknown_model :=
                              UnknownGeneInfoModel_initialize (unknown_model w2) (genes gm)\<rparr>
                in (w3, commit E w3 []))))"

section \<open>Notions of the claims\<close>

text \<open>
  A stripped name, said without the function that strips: \<open>n\<close> is what is left of \<open>s\<close>
  when a run of whitespace is taken from its front and one from its end, and \<open>n\<close> neither
  begins nor ends with whitespace.
\<close>

definition stripped_of :: "string \<Rightarrow> string \<Rightarrow> bool" where
  "stripped_of s n =
     ((\<exists>pre post. s = pre @ n @ post \<and> list_all is_space pre \<and> list_all is_space post) \<and>
      (n = [] \<or> \<not> is_space (hd n) \<and> \<not> is_space (last n)))"

text \<open>The symbol of the last gene of a list that has a symbol.\<close>

fun last_symbol :: "gene list \<Rightarrow> pyval option" where
  "last_symbol [] = None"
| "last_symbol (g # gs) = (case last_symbol gs of None \<Rightarrow> symbol g | Some s \<Rightarrow> Some s)"

section \<open>Example inputs\<close>

text \<open>
  The concrete inputs of the witnesses and counterexamples below. Numbers are natural
  numbers here, and the string that a float column can store is a string of digits.
\<close>

definition parse_nat :: "string \<Rightarrow> nat option" where
  "parse_nat s =
     (if s \<noteq> [] \<and> list_all (\<lambda>c. 48 \<le> (of_char c :: nat) \<and> (of_char c :: nat) \<le> 57) s
      then Some (fold (\<lambda>c n. 10 * n + (of_char c - 48)) s 0)
      else None)"

definition ex_env :: "nat env" where
  "ex_env =
     \<lparr>TAX_ID = ''taxonomy_id'', GENE_AS_ATTRIBUTE_NAME = ''gene_as_attribute_name'',
      GENE_ID_COLUMN = ''gene_id_column'', GENE_ID_ATTRIBUTE = ''gene_id_attribute'',
      to_number = parse_nat, str_val = (\<lambda>v n. str_nat n),
      to_list = (\<lambda>g. [input_name g, py_str (ncbi_id g)])\<rparr>"

definition ex_var :: "string \<Rightarrow> var_type \<Rightarrow> variable" where
  "ex_var n t = \<lparr>name = n, var_type = t, var_attributes = []\<rparr>"

text \<open>A table with the gene names in the string meta \<^verbatim>\<open>gene\<close> and no attributes.\<close>

definition ex_rows_table :: "nat table" where
  "ex_rows_table =
     \<lparr>domain = \<lparr>attributes = [], class_vars = [ex_var ''kind'' DiscreteVariable],
                metas = [ex_var ''gene'' StringVariable]\<rparr>,
      rows = [\<lparr>inst_x = [], inst_y = [Num 0], inst_metas = [Str ''p53'']\<rparr>,
              \<lparr>inst_x = [], inst_y = [Num 0], inst_metas = [Str ''FOO'']\<rparr>],
      table_attributes = []\<rparr>"

text \<open>A table with the gene names as the names of its two features.\<close>

definition ex_columns_table :: "nat table" where
  "ex_columns_table =
     \<lparr>domain = \<lparr>attributes = [ex_var ''p53'' ContinuousVariable,
                             ex_var ''FOO'' ContinuousVariable],
                class_vars = [], metas = []\<rparr>,
      rows = [\<lparr>inst_x = [Num 1, Num 2], inst_y = [], inst_metas = []\<rparr>],
      table_attributes = []\<rparr>"

text \<open>
  A table whose feature names have whitespace around the gene names: a space before the
  first; a no-break space before the second and a tab and a next-line character after it.
\<close>

definition ex_spaces_table :: "nat table" where
  "ex_spaces_table =
     \<lparr>domain = \<lparr>attributes = [ex_var '' p53'' ContinuousVariable,
                             ex_var (CHR 0xA0 # ''FOO'' @ [CHR 0x09, CHR 0x85])
                               ContinuousVariable],
                class_vars = [], metas = []\<rparr>,
      rows = [\<lparr>inst_x = [Num 1, Num 2], inst_y = [], inst_metas = []\<rparr>],
      table_attributes = []\<rparr>"

text \<open>A table that already has a continuous feature named as the target database.\<close>

definition ex_reuse_table :: "nat table" where
  "ex_reuse_table =
     \<lparr>domain = \<lparr>attributes = [ex_var ''Entrez ID'' ContinuousVariable], class_vars = [],
                metas = [ex_var ''gene'' StringVariable]\<rparr>,
      rows = [\<lparr>inst_x = [Num 1], inst_y = [], inst_metas = [Str ''p53'']\<rparr>],
      table_attributes = [(''gene_as_attribute_name'', PyBool False)]\<rparr>"

text \<open>A table whose only gene name is missing.\<close>

definition ex_missing_table :: "nat table" where
  "ex_missing_table =
     \<lparr>domain = \<lparr>attributes = [], class_vars = [], metas = [ex_var ''gene'' StringVariable]\<rparr>,
      rows = [\<lparr>inst_x = [], inst_y = [], inst_metas = [Missing]\<rparr>],
      table_attributes = []\<rparr>"

text \<open>The widget as \<^verbatim>\<open>__init__\<close> and the default settings leave it.\<close>

definition ex_widget :: "nat widget" where
  "ex_widget =
     \<lparr>target_database = ''Entrez ID'', input_data = None, input_genes = None, tax_id = None,
      organisms = [''10090'', ''9606''], selected_organism = 11, exclude_unmatched = True,
      replace_id_with_symbol = True, selected_gene_col = None, use_attr_names = True,
      gene_columns_model = [], gene_matcher = None,
      table_model = \<lparr>model_genes = None, data_table = None, wrapped_table = []\<rparr>,
      unknown_model = \<lparr>unknown_genes = [], wrapped_list = []\<rparr>,
      replace_radio_enabled = True, exclude_radio_enabled = True\<rparr>"

text \<open>The widget with the input \<open>t\<close>, as lines 475 and 476 of the source leave it.\<close>

definition ex_loaded :: "nat table \<Rightarrow> nat widget" where
  "ex_loaded t = ex_widget\<lparr>input_data := Some t, gene_columns_model := set_domain (Some (domain t))\<rparr>"

text \<open>Results of a matcher run: one gene resolved, one not.\<close>

definition ex_genes :: "gene list" where
  "ex_genes =
     [\<lparr>input_name = ''p53'', ncbi_id = PyInt 7157, symbol = Some (PyStr ''TP53'')\<rparr>,
      \<lparr>input_name = ''FOO'', ncbi_id = PyNone, symbol = None\<rparr>]"

text \<open>Results in which both genes are resolved and the second has no symbol.\<close>

definition ex_genes_known :: "gene list" where
  "ex_genes_known =
     [\<lparr>input_name = ''p53'', ncbi_id = PyInt 7157, symbol = Some (PyStr ''TP53'')\<rparr>,
      \<lparr>input_name = ''FOO'', ncbi_id = PyInt 3, symbol = None\<rparr>]"

text \<open>Results for the single gene name \<^verbatim>\<open>p53\<close>, and results without any known gene.\<close>

definition ex_genes_one :: "gene list" where
  "ex_genes_one =
     [\<lparr>input_name = ''p53'', ncbi_id = PyInt 7157, symbol = Some (PyStr ''TP53'')\<rparr>]"

definition ex_genes_unknown :: "gene list" where
  "ex_genes_unknown =
     [\<lparr>input_name = ''p53'', ncbi_id = PyNone, symbol = None\<rparr>,
      \<lparr>input_name = ''FOO'', ncbi_id = PyNone, symbol = None\<rparr>]"

definition ex_matcher :: "gene list \<Rightarrow> gene_matcher" where
  "ex_matcher gs = \<lparr>genes = gs, organism = ''9606''\<rparr>"

text \<open>The widget after the input \<open>t\<close> and a matcher run with the results \<open>gs\<close>.\<close>

definition ex_matched :: "nat table \<Rightarrow> gene list \<Rightarrow> nat widget" where
  "ex_matched t gs =
     (fst (handle_input ex_env None ex_widget (Some t)))\<lparr>gene_matcher := Some (ex_matcher gs)\<rparr>"

text \<open>The tables that \<^verbatim>\<open>commit\<close> sends for these inputs.\<close>

definition ex_rows_output :: "nat table" where
  "ex_rows_output =
     \<lparr>domain = \<lparr>attributes = [], class_vars = [ex_var ''kind'' DiscreteVariable],
                metas = [ex_var ''gene'' StringVariable, ex_var ''Entrez ID'' StringVariable]\<rparr>,
      rows = [\<lparr>inst_x = [], inst_y = [Num 0], inst_metas = [Str ''p53'', Str ''7157'']\<rparr>],
      table_attributes =
        [(''taxonomy_id'', PyStr ''9606''), (''gene_as_attribute_name'', PyBool False),
         (''gene_id_column'', PyStr ''Entrez ID'')]\<rparr>"

definition ex_columns_output :: "nat table" where
  "ex_columns_output =
     \<lparr>domain = \<lparr>attributes =
                  [\<lparr>name = ''TP53'', var_type = ContinuousVariable,
                    var_attributes = [(''Entrez ID'', PyStr ''7157'')]\<rparr>],
                class_vars = [], metas = []\<rparr>,
      rows = [\<lparr>inst_x = [Num 1], inst_y = [], inst_metas = []\<rparr>],
      table_attributes =
        [(''taxonomy_id'', PyStr ''9606''), (''gene_as_attribute_name'', PyBool True),
         (''gene_id_attribute'', PyStr ''Entrez ID'')]\<rparr>"

definition ex_symbol_output :: "nat table" where
  "ex_symbol_output =
     \<lparr>domain = \<lparr>attributes =
                  [\<lparr>name = ''TP53'', var_type = ContinuousVariable,
                    var_attributes = [(''Entrez ID'', PyStr ''7157'')]\<rparr>,
                   \<lparr>name = ''FOO'', var_type = ContinuousVariable,
                    var_attributes = [(''Entrez ID'', PyStr ''3'')]\<rparr>],
                class_vars = [], metas = []\<rparr>,
      rows = [\<lparr>inst_x = [Num 1, Num 2], inst_y = [], inst_metas = []\<rparr>],
      table_attributes =
        [(''taxonomy_id'', PyStr ''9606''), (''gene_as_attribute_name'', PyBool True),
         (''gene_id_attribute'', PyStr ''Entrez ID'')]\<rparr>"

definition ex_spaces_output :: "nat table" where
  "ex_spaces_output =
     ex_spaces_table
       \<lparr>table_attributes :=
          [(''taxonomy_id'', PyStr ''9606''), (''gene_as_attribute_name'', PyBool True),
           (''gene_id_attribute'', PyStr ''Entrez ID'')]\<rparr>"

definition ex_reuse_output :: "nat table" where
  "ex_reuse_output =
     \<lparr>domain = \<lparr>attributes = [ex_var ''Entrez ID'' ContinuousVariable], class_vars = [],
                metas = [ex_var ''gene'' StringVariable]\<rparr>,
      rows = [\<lparr>inst_x = [Num 7157], inst_y = [], inst_metas = [Str ''p53'']\<rparr>],
      table_attributes =
        [(''gene_as_attribute_name'', PyBool False), (''taxonomy_id'', PyStr ''9606''),
         (''gene_id_column'', PyStr ''Entrez ID'')]\<rparr>"

section \<open>Properties\<close>

subsection \<open>Auxiliary facts\<close>


lemma stripped_of_strip: "stripped_of s (strip s)"
proof -
  let ?rest = "dropWhile is_space s"
  let ?n = "rev (dropWhile is_space (rev ?rest))"
  let ?post = "rev (takeWhile is_space (rev ?rest))"
  have "?n @ ?post = rev (takeWhile is_space (rev ?rest) @ dropWhile is_space (rev ?rest))"
    by (simp only: rev_append)
  also have "\<dots> = rev (rev ?rest)" by (simp only: takeWhile_dropWhile_id)
  finally have r: "?rest = ?n @ ?post" by simp
  have "s = takeWhile is_space s @ ?rest" by simp
  with r have s: "s = takeWhile is_space s @ ?n @ ?post" by simp
  have pre: "list_all is_space (takeWhile is_space s)"
    by (simp add: list_all_iff) (meson set_takeWhileD)
  have post: "list_all is_space ?post"
    by (simp add: list_all_iff) (meson set_takeWhileD)
  have e: "?n = [] \<or> \<not> is_space (hd ?n) \<and> \<not> is_space (last ?n)"
  proof (cases "?n = []")
    case True
    then show ?thesis by simp
  next
    case False
    then have ne: "dropWhile is_space (rev ?rest) \<noteq> []" by simp
    then have "\<not> is_space (hd (dropWhile is_space (rev ?rest)))" by (rule hd_dropWhile)
    then have l: "\<not> is_space (last ?n)" using ne by (simp add: last_rev)
    have "?rest \<noteq> []"
    proof
      assume a: "?rest = []"
      have "?n = []" unfolding a by simp
      with False show False ..
    qed
    then have "\<not> is_space (hd ?rest)" by (rule hd_dropWhile)
    moreover from r False have "hd ?rest = hd ?n" by (metis hd_append2)
    ultimately show ?thesis using l by simp
  qed
  from s pre post e show ?thesis
    unfolding stripped_of_def strip_def by blast
qed

text \<open>The description determines the stripped name.\<close>

lemma stripped_of_unique:
  assumes "stripped_of s n"
  shows "n = strip s"
proof -
  from assms obtain pre post where s: "s = pre @ n @ post"
    and pre: "list_all is_space pre" and post: "list_all is_space post"
    and e: "n = [] \<or> \<not> is_space (hd n) \<and> \<not> is_space (last n)"
    unfolding stripped_of_def by blast
  from pre have d1: "dropWhile is_space s = dropWhile is_space (n @ post)"
    unfolding s by (simp add: list_all_iff dropWhile_append2)
  show ?thesis
  proof (cases "n = []")
    case True
    from d1 have "dropWhile is_space s = dropWhile is_space post"
      by (simp only: True append_Nil)
    also from post have "\<dots> = []" by (simp add: list_all_iff)
    finally have d: "dropWhile is_space s = []" .
    show ?thesis unfolding strip_def d using True by simp
  next
    case False
    with e have h: "\<not> is_space (hd n)" and l: "\<not> is_space (last n)" by simp_all
    from False h have "dropWhile is_space (n @ post) = n @ post"
      by (cases n) simp_all
    with d1 have d2: "dropWhile is_space s = n @ post" by simp
    from post have "\<And>x. x \<in> set (rev post) \<Longrightarrow> is_space x"
      by (simp add: list_all_iff)
    then have "dropWhile is_space (rev post @ rev n) = dropWhile is_space (rev n)"
      by (rule dropWhile_append2)
    also from False l have "dropWhile is_space (rev n) = rev n"
      by (cases n rule: rev_cases) simp_all
    finally show ?thesis by (simp add: strip_def d2)
  qed
qed

lemma stripped_of_all_unique: "list_all2 stripped_of ss ns \<Longrightarrow> ns = map strip ss"
  by (induction rule: list_all2_induct) (simp_all add: stripped_of_unique)



lemma known_genes_le: "length (get_known_genes gm) \<le> length (genes gm)"
  by (simp add: get_known_genes_def)

lemma toggle_radio_options_Some:
  "gene_matcher w = Some gm \<Longrightarrow>
   toggle_radio_options w =
     (if genes gm \<noteq> [] then
        w\<lparr>replace_radio_enabled := use_attr_names w,
          exclude_radio_enabled := (length (genes gm) \<noteq> length (get_known_genes gm)),
          exclude_unmatched := (length (genes gm) \<noteq> length (get_known_genes gm))\<rparr>
      else w\<lparr>replace_radio_enabled := use_attr_names w\<rparr>, None)"
  by (simp add: toggle_radio_options_def Let_def)

lemma handle_matcher_results_Some:
  "gene_matcher w = Some gm \<Longrightarrow>
   fst (handle_matcher_results E w) =
     (fst (toggle_radio_options w))
       \<lparr>table_model := GeneInfoModel_initialize E (table_model w) (genes gm),
        unknown_model := UnknownGeneInfoModel_initialize (unknown_model w) (genes gm)\<rparr>"
  by (simp add: handle_matcher_results_def toggle_radio_options_Some Let_def)

lemma ex_matched_matcher: "gene_matcher (ex_matched t gs) = Some (ex_matcher gs)"
  by (simp add: ex_matched_def)

lemma tax_id_find_genes_location [simp]: "tax_id (fst (find_genes_location w)) = tax_id w"
  by (simp add: find_genes_location_def split: option.splits sum.splits)

lemma tax_id_gene_names_from_table [simp]:
  "tax_id (fst (gene_names_from_table E w)) = tax_id w"
  by (simp add: gene_names_from_table_def Let_def split: option.splits sum.splits)

lemma tax_id_update_gene_matcher [simp]:
  "tax_id (fst (update_gene_matcher E w)) = tax_id w"
proof (cases "gene_names_from_table E w")
  case (Pair w1 e)
  moreover from Pair have "tax_id w1 = tax_id w"
    using tax_id_gene_names_from_table [of E w] by simp
  ultimately show ?thesis
    by (simp add: update_gene_matcher_def split: option.splits sum.splits)
qed

lemma tax_id_on_input_option_change [simp]:
  "tax_id (fst (on_input_option_change E w)) = tax_id w"
  by (simp add: on_input_option_change_def reset_widget_state_def)

lemma tax_id_open_context [simp]: "tax_id (open_context stored w) = tax_id w"
  by (simp add: open_context_def split: option.splits prod.splits)

subsection \<open>The exclude setting after a match run\<close>

text \<open>
  C7, as the code has it: \<^verbatim>\<open>toggle_radio_options\<close> overwrites \<^verbatim>\<open>exclude_unmatched\<close>
  only when the matcher holds at least one gene. Then the setting becomes true exactly
  when fewer genes are known than there are genes, whatever it was before. With an empty
  gene list the setting keeps its value. \<^verbatim>\<open>_handle_matcher_results\<close> leaves the
  setting as \<^verbatim>\<open>toggle_radio_options\<close> set it.
\<close>

theorem toggle_radio_options_exclude_unmatched:
  assumes "gene_matcher w = Some gm"
  shows "snd (toggle_radio_options w) = None \<and>
         exclude_unmatched (fst (toggle_radio_options w)) =
           (if genes gm \<noteq> [] then length (get_known_genes gm) < length (genes gm)
            else exclude_unmatched w) \<and>
         exclude_unmatched (fst (handle_matcher_results E w)) =
           exclude_unmatched (fst (toggle_radio_options w))"
  using assms known_genes_le [of gm]
  by (auto simp add: toggle_radio_options_Some handle_matcher_results_Some)

text \<open>
  Both genes of the example are known: the setting, true before, is false afterwards.
\<close>

theorem toggle_radio_options_exclude_unmatched_witness:
  "exclude_unmatched (ex_matched ex_columns_table ex_genes_known) \<and>
   snd (toggle_radio_options (ex_matched ex_columns_table ex_genes_known)) = None \<and>
   exclude_unmatched (fst (toggle_radio_options (ex_matched ex_columns_table ex_genes_known)))
     = False"
proof -
  have "exclude_unmatched (ex_matched ex_columns_table ex_genes_known)"
    by code_simp
  moreover have "\<not> length (get_known_genes (ex_matcher ex_genes_known))
                     < length (genes (ex_matcher ex_genes_known))"
    by code_simp
  moreover have "genes (ex_matcher ex_genes_known) \<noteq> []"
    by code_simp
  ultimately show ?thesis
    using toggle_radio_options_exclude_unmatched
            [where E = ex_env, OF ex_matched_matcher, of ex_columns_table ex_genes_known]
    by simp
qed

text \<open>
  The claim as stated fails for a match run without genes: the only gene name of the
  input is missing, the matcher holds no gene, and the setting is still true although
  the number of known genes is not less than the number of genes.
\<close>

theorem toggle_radio_options_counterexample:
  "exclude_unmatched (fst (handle_matcher_results ex_env (ex_matched ex_missing_table []))) \<and>
   \<not> length (get_known_genes (ex_matcher [])) < length (genes (ex_matcher []))"
  by code_simp

subsection \<open>The two views of the genes\<close>



subsection \<open>The default organism\<close>

text \<open>
  C9: for an input table that has a row and no \<^verbatim>\<open>TAX_ID\<close> entry in its attributes,
  \<^verbatim>\<open>handle_input\<close> leaves the widget with the taxonomy id \<^verbatim>\<open>'9606'\<close>, whether or not a
  later step of it raises.
\<close>

theorem handle_input_default_tax_id:
  assumes "table_bool (Some t)" and "dict_get (table_attributes t) (TAX_ID E) = None"
  shows "tax_id (fst (handle_input E stored w (Some t))) = Some ''9606''"
proof -
  define w5 where
    "w5 =
       (let w1 = reset_widget_state (w\<lparr>input_data := None, input_genes := None\<rparr>);
            w2 = w1\<lparr>gene_columns_model := set_domain None, selected_gene_col := None\<rparr>;
            w3 = w2\<lparr>input_data := Some t, gene_columns_model := set_domain (Some (domain t))\<rparr>;
            tid = py_str (case dict_get (table_attributes t) (TAX_ID E) of
                            None \<Rightarrow> PyStr ''9606''
                          | Some v \<Rightarrow> v);
            w4 = w3\<lparr>tax_id := Some tid,
                    use_attr_names :=
                      (case dict_get (table_attributes t) (GENE_AS_ATTRIBUTE_NAME E) of
                         None \<Rightarrow> use_attr_names w3
                       | Some v \<Rightarrow> py_bool v)\<rparr>
        in (if tid \<in> set (organisms w4)
            then w4\<lparr>selected_organism := int (list_index (organisms w4) tid)\<rparr>
            else w4))"
  have t5: "tax_id w5 = Some ''9606''"
    using assms(2) by (simp add: w5_def Let_def)
  have "handle_input E stored w (Some t) =
          (case find_genes_location (open_context stored w5) of
             (w6, Some e) \<Rightarrow> (w6, Some e)
           | (w6, None) \<Rightarrow> on_input_option_change E w6)"
    using assms(1) unfolding handle_input_def w5_def Let_def by simp
  moreover obtain w6 e where f: "find_genes_location (open_context stored w5) = (w6, e)"
    by (cases "find_genes_location (open_context stored w5)")
  moreover from f have "tax_id w6 = Some ''9606''"
    using tax_id_find_genes_location [of "open_context stored w5"] t5 by simp
  ultimately show ?thesis
    by (cases e) simp_all
qed

theorem handle_input_default_tax_id_witness:
  "table_bool (Some ex_rows_table) \<and>
   dict_get (table_attributes ex_rows_table) (TAX_ID ex_env) = None \<and>
   tax_id (fst (handle_input ex_env None ex_widget (Some ex_rows_table))) = Some ''9606''"
proof -
  have a: "table_bool (Some ex_rows_table)"
    by (simp add: table_bool_def ex_rows_table_def)
  have b: "dict_get (table_attributes ex_rows_table) (TAX_ID ex_env) = None"
    by (simp add: dict_get_def ex_rows_table_def)
  show ?thesis
    using a b handle_input_default_tax_id [OF a b] by simp
qed

subsection \<open>The column of the gene names\<close>

lemma find_last_None: "find_last P xs = None \<longleftrightarrow> (\<forall>x \<in> set xs. \<not> P x)"
  by (induction xs) (auto split: option.splits)

lemma find_last_Some: "find_last P xs = Some i \<Longrightarrow> i < length xs \<and> P (xs ! i)"
  by (induction xs arbitrary: i) (auto split: option.splits if_splits)

lemma find_last_Some_ex: "find_last P xs = Some i \<Longrightarrow> \<exists>x \<in> set xs. P x"
  using find_last_None [of P xs] by auto

lemma domain_index_None:
  "domain_index d P = None \<longleftrightarrow> (\<forall>v \<in> set (domain_variables d). \<not> P v)"
proof (cases "find_last P (metas d)")
  case None
  then show ?thesis
    using find_last_None [of P "metas d"] find_last_None [of P "attributes d @ class_vars d"]
    by (auto simp add: domain_index_def domain_variables_def split: option.splits)
next
  case (Some j)
  then show ?thesis
    using find_last_Some_ex [of P "metas d" j]
    by (auto simp add: domain_index_def domain_variables_def)
qed

lemma domain_index_by_var:
  "v \<in> set (domain_variables d) \<Longrightarrow> \<exists>p. domain_index d (by_var v) = Some p"
  using domain_index_None [of d "by_var v"] by (cases "domain_index d (by_var v)") (auto simp add: by_var_def)

lemma Var_in_join_sections:
  "Var v \<in> set (join_sections ss) \<longleftrightarrow> (\<exists>s \<in> set ss. Var v \<in> set s)"
  by (induction ss) auto

lemma Var_in_set_domain:
  "Var v \<in> set (set_domain (Some d)) \<longleftrightarrow> v \<in> set (domain_variables d) \<and> valid_type v"
  by (auto simp add: set_domain_def Var_in_join_sections domain_variables_def
      simp del: join_sections.simps)

lemma valid_type_candidate: "valid_type v = is_candidate v"
  by (auto simp add: valid_type_def is_candidate_def)

lemma candidates_set:
  assumes "\<forall>col. Var col \<in> set items \<and> is_candidate col \<longrightarrow> col \<in> set (domain_variables (domain t))"
  shows "\<exists>cs. candidates (Some t) items = Inr cs \<and>
           set cs = {(col, column_unique t col) | col. Var col \<in> set items \<and> is_candidate col}"
  using assms
proof (induction items)
  case Nil
  then show ?case by simp
next
  case (Cons item items)
  then obtain cs where cs: "candidates (Some t) items = Inr cs"
      "set cs = {(col, column_unique t col) | col. Var col \<in> set items \<and> is_candidate col}"
    by auto
  show ?case
  proof (cases item)
    case Separator
    with cs show ?thesis by simp
  next
    case (Var col)
    show ?thesis
    proof (cases "is_candidate col")
      case False
      with Var cs show ?thesis by auto
    next
      case True
      with Var Cons.prems have "col \<in> set (domain_variables (domain t))" by simp
      then obtain p where "domain_index (domain t) (by_var col) = Some p"
        using domain_index_by_var by blast
      then obtain column where c: "get_column_view t col = Inr column"
        by (simp add: get_column_view_def)
      then have "column_unique t col = unique_size column"
        by (simp add: column_unique_def)
      with Var True cs c show ?thesis by auto
    qed
  qed
qed

lemma sorted_le_last: "sorted ys \<Longrightarrow> y \<in> set ys \<Longrightarrow> y \<le> last ys"
  by (induction ys) auto

lemma last_sort_key_max:
  assumes "xs \<noteq> []"
  shows "last (sort_key f xs) \<in> set xs \<and> (\<forall>x \<in> set xs. f x \<le> f (last (sort_key f xs)))"
proof -
  let ?ys = "sort_key f xs"
  have ne: "?ys \<noteq> []" using assms by (metis length_sort length_0_conv)
  have a: "last ?ys \<in> set xs" using last_in_set [OF ne] by simp
  have s: "sorted (map f ?ys)" by (rule sorted_sort_key)
  have "\<forall>x \<in> set xs. f x \<le> f (last ?ys)"
  proof
    fix x assume "x \<in> set xs"
    then have "f x \<in> set (map f ?ys)" by simp
    then have "f x \<le> last (map f ?ys)" using s sorted_le_last by blast
    then show "f x \<le> f (last ?ys)" using ne by (simp add: last_map)
  qed
  with a show ?thesis by simp
qed

lemma py_index_last: "xs \<noteq> [] \<Longrightarrow> py_index xs (- 1) = Inr (last xs)"
  by (cases xs rule: rev_cases) (auto simp add: py_index_def nat_add_distrib)

text \<open>
  C1: when the domain of the input table has a discrete or string variable,
  \<^verbatim>\<open>gene_column_identifier\<close> returns such a variable of the domain, and no discrete or
  string variable of the domain has more unique values in its column.
\<close>

theorem gene_column_identifier_most_unique:
  assumes "input_data w = Some t"
    and "gene_columns_model w = set_domain (Some (domain t))"
    and "\<exists>v \<in> set (domain_variables (domain t)). is_candidate v"
  shows "\<exists>best. gene_column_identifier w = Inr best \<and>
           best \<in> set (domain_variables (domain t)) \<and> is_candidate best \<and>
           (\<forall>col \<in> set (domain_variables (domain t)).
              is_candidate col \<longrightarrow> column_unique t col \<le> column_unique t best)"
proof -
  let ?items = "set_domain (Some (domain t))"
  have "\<forall>col. Var col \<in> set ?items \<and> is_candidate col \<longrightarrow> col \<in> set (domain_variables (domain t))"
    by (simp add: Var_in_set_domain)
  then obtain cs where cs: "candidates (Some t) ?items = Inr cs"
    "set cs = {(col, column_unique t col) | col. Var col \<in> set ?items \<and> is_candidate col}"
    using candidates_set by blast
  then have set_cs: "set cs = {(col, column_unique t col) | col.
                        col \<in> set (domain_variables (domain t)) \<and> is_candidate col}"
    by (auto simp add: Var_in_set_domain valid_type_candidate)
  with assms(3) have ne: "cs \<noteq> []" by auto
  then have sne: "sort_key snd cs \<noteq> []" by (metis length_sort length_0_conv)
  obtain best n where b: "last (sort_key snd cs) = (best, n)"
    by (cases "last (sort_key snd cs)")
  have res: "gene_column_identifier w = Inr best"
    using assms(1,2) cs(1) b sne by (simp add: gene_column_identifier_def py_index_last)
  from last_sort_key_max [OF ne, of snd] b
  have mem: "(best, n) \<in> set cs" and mx: "\<forall>x \<in> set cs. snd x \<le> n" by auto
  from mem set_cs have bp: "best \<in> set (domain_variables (domain t))" "is_candidate best"
    "n = column_unique t best" by auto
  have "\<forall>col \<in> set (domain_variables (domain t)).
          is_candidate col \<longrightarrow> column_unique t col \<le> column_unique t best"
  proof (intro ballI impI)
    fix col assume "col \<in> set (domain_variables (domain t))" "is_candidate col"
    then have "(col, column_unique t col) \<in> set cs" using set_cs by auto
    with mx bp(3) show "column_unique t col \<le> column_unique t best" by auto
  qed
  with res bp show ?thesis by blast
qed


text \<open>
  The example has one discrete and one string column; the string column has two unique
  values and is chosen.
\<close>

theorem gene_column_identifier_most_unique_witness:
  "gene_column_identifier (ex_loaded ex_rows_table) = Inr (ex_var ''gene'' StringVariable) \<and>
   column_unique ex_rows_table (ex_var ''kind'' DiscreteVariable) = 1 \<and>
   column_unique ex_rows_table (ex_var ''gene'' StringVariable) = 2"
proof -
  have a: "input_data (ex_loaded ex_rows_table) = Some ex_rows_table"
    by (simp add: ex_loaded_def)
  have b: "gene_columns_model (ex_loaded ex_rows_table) = set_domain (Some (domain ex_rows_table))"
    by (simp add: ex_loaded_def)
  have c: "\<exists>v \<in> set (domain_variables (domain ex_rows_table)). is_candidate v"
    by (simp add: domain_variables_def ex_rows_table_def ex_var_def is_candidate_def)
  have k: "column_unique ex_rows_table (ex_var ''kind'' DiscreteVariable) = 1"
    by (simp add: column_unique_def get_column_view_def domain_index_def by_var_def
        ex_rows_table_def ex_var_def inst_get_def nth_cell_def unique_size_def)
  have g: "column_unique ex_rows_table (ex_var ''gene'' StringVariable) = 2"
    by (simp add: column_unique_def get_column_view_def domain_index_def by_var_def
        ex_rows_table_def ex_var_def inst_get_def nth_cell_def unique_size_def)
  have vs: "domain_variables (domain ex_rows_table) =
              [ex_var ''kind'' DiscreteVariable, ex_var ''gene'' StringVariable]"
    by (simp add: domain_variables_def ex_rows_table_def)
  from gene_column_identifier_most_unique [OF a b c] obtain best where
    best: "gene_column_identifier (ex_loaded ex_rows_table) = Inr best"
      "best \<in> set (domain_variables (domain ex_rows_table))"
      "\<forall>col \<in> set (domain_variables (domain ex_rows_table)).
         is_candidate col \<longrightarrow> column_unique ex_rows_table col \<le> column_unique ex_rows_table best"
    by blast
  have "is_candidate (ex_var ''gene'' StringVariable)"
    by (simp add: is_candidate_def ex_var_def)
  with best(3) vs have "column_unique ex_rows_table (ex_var ''gene'' StringVariable)
                         \<le> column_unique ex_rows_table best" by simp
  with best(2) vs k g have "best = ex_var ''gene'' StringVariable" by auto
  with best(1) k g show ?thesis by simp
qed

subsection \<open>The input gene names\<close>

text \<open>
  C5: for an input table (it has a row, or \<^verbatim>\<open>handle_input\<close> would not have kept it),
  \<^verbatim>\<open>gene_names_from_table\<close> sets \<^verbatim>\<open>input_genes\<close>, when \<^verbatim>\<open>use_attr_names\<close> is true, to
  one name for every attribute of the domain, in their order: the name of the attribute
  without the whitespace at its two ends. Otherwise it sets it to the strings of the cells
  of the selected gene column (the column that \<^verbatim>\<open>gene_column_identifier\<close> finds when none
  is selected), one for every row whose cell in that column is not missing, in the order
  of the rows.
\<close>

theorem gene_names_from_table_convention:
  assumes "input_data w = Some t" and "rows t \<noteq> []"
  shows "if use_attr_names w then
           snd (gene_names_from_table E w) = None \<and>
           (\<exists>ns. input_genes (fst (gene_names_from_table E w)) = Some ns \<and>
                 list_all2 stripped_of (map name (attributes (domain t))) ns)
         else
           (\<forall>col p.
              (case selected_gene_col w of None \<Rightarrow> gene_column_identifier w | Some c \<Rightarrow> Inr c)
                = Inr col \<longrightarrow>
              domain_index (domain t) (by_var col) = Some p \<longrightarrow>
              snd (gene_names_from_table E w) = None \<and>
              selected_gene_col (fst (gene_names_from_table E w)) = Some col \<and>
              input_genes (fst (gene_names_from_table E w)) =
                Some (map (\<lambda>e. str_cell E col (inst_get (domain t) e p))
                        (filter (\<lambda>e. inst_get (domain t) e p \<noteq> Missing) (rows t))))"
proof (cases "use_attr_names w")
  case True
  let ?ns = "map (\<lambda>attr. strip (name attr)) (attributes (domain t))"
  from assms True have e: "snd (gene_names_from_table E w) = None"
    and i: "input_genes (fst (gene_names_from_table E w)) = Some ?ns"
    by (simp_all add: gene_names_from_table_def table_bool_def Let_def)
  have "list_all2 stripped_of (map name (attributes (domain t))) ?ns"
    by (simp add: list_all2_map1 list_all2_map2 list_all2_same stripped_of_strip)
  with e i True show ?thesis by simp
next
  case False
  have gci: "gene_column_identifier (w\<lparr>input_genes := Some []\<rparr>) = gene_column_identifier w"
    by (simp add: gene_column_identifier_def)
  show ?thesis
  proof (simp only: False if_False, intro allI impI)
    fix col p
    assume c: "(case selected_gene_col w of None \<Rightarrow> gene_column_identifier w | Some c \<Rightarrow> Inr c)
                 = Inr col"
      and p: "domain_index (domain t) (by_var col) = Some p"
    from c have c': "(case selected_gene_col w of
                        None \<Rightarrow> gene_column_identifier (w\<lparr>input_genes := Some []\<rparr>)
                      | Some c \<Rightarrow> Inr c) = Inr col"
      by (cases "selected_gene_col w") (simp_all add: gci)
    from assms False c' p show
      "snd (gene_names_from_table E w) = None \<and>
       selected_gene_col (fst (gene_names_from_table E w)) = Some col \<and>
       input_genes (fst (gene_names_from_table E w)) =
         Some (map (\<lambda>e. str_cell E col (inst_get (domain t) e p))
                 (filter (\<lambda>e. inst_get (domain t) e p \<noteq> Missing) (rows t)))"
      by (simp add: gene_names_from_table_def table_bool_def Let_def column_names_def)
  qed
qed

text \<open>
  The examples: the feature names \<^verbatim>\<open>p53\<close> with a space before it and \<^verbatim>\<open>FOO\<close> with a no-break
  space before it and a tab and a next-line character after it give the gene names
  \<^verbatim>\<open>p53\<close> and \<^verbatim>\<open>FOO\<close>; so do the two rows of the table with the gene names in a meta.
\<close>

theorem gene_names_from_table_convention_witness:
  "input_genes (fst (gene_names_from_table ex_env (ex_loaded ex_spaces_table))) =
     Some [''p53'', ''FOO''] \<and>
   list_all2 stripped_of [CHR 0x20 # ''p53'', CHR 0xA0 # ''FOO'' @ [CHR 0x09, CHR 0x85]]
     [''p53'', ''FOO''] \<and>
   input_genes (fst (gene_names_from_table ex_env
       ((ex_loaded ex_rows_table)\<lparr>use_attr_names := False\<rparr>))) = Some [''p53'', ''FOO'']"
proof -
  have a1: "input_data (ex_loaded ex_spaces_table) = Some ex_spaces_table"
    and a2: "rows ex_spaces_table \<noteq> []" and a3: "use_attr_names (ex_loaded ex_spaces_table)"
    by (simp_all add: ex_loaded_def ex_spaces_table_def ex_widget_def)
  have a4: "map name (attributes (domain ex_spaces_table)) =
              [CHR 0x20 # ''p53'', CHR 0xA0 # ''FOO'' @ [CHR 0x09, CHR 0x85]]"
    by (simp add: ex_spaces_table_def ex_var_def)
  from gene_names_from_table_convention [OF a1 a2, of ex_env] a3 obtain ns where
    i: "input_genes (fst (gene_names_from_table ex_env (ex_loaded ex_spaces_table))) = Some ns"
    and s: "list_all2 stripped_of (map name (attributes (domain ex_spaces_table))) ns"
    by auto
  from s have "ns = map strip (map name (attributes (domain ex_spaces_table)))"
    by (rule stripped_of_all_unique)
  then have ns: "ns = [''p53'', ''FOO'']"
    unfolding a4 by (simp add: strip_def is_space_def)
  let ?w = "(ex_loaded ex_rows_table)\<lparr>use_attr_names := False\<rparr>"
  let ?g = "ex_var ''gene'' StringVariable"
  have b1: "input_data ?w = Some ex_rows_table" and b2: "rows ex_rows_table \<noteq> []"
    and b3: "\<not> use_attr_names ?w"
    by (simp_all add: ex_loaded_def ex_rows_table_def)
  have b4: "(case selected_gene_col ?w of None \<Rightarrow> gene_column_identifier ?w | Some c \<Rightarrow> Inr c)
              = Inr ?g"
    by (simp add: ex_loaded_def ex_widget_def gene_column_identifier_def set_domain_def
        ex_rows_table_def ex_var_def valid_type_def is_candidate_def get_column_view_def
        domain_index_def by_var_def inst_get_def nth_cell_def unique_size_def py_index_def)
  have b5: "domain_index (domain ex_rows_table) (by_var ?g) = Some (Meta 0)"
    by (simp add: domain_index_def by_var_def ex_rows_table_def ex_var_def)
  have n: "map (\<lambda>e. str_cell ex_env ?g (inst_get (domain ex_rows_table) e (Meta 0)))
             (filter (\<lambda>e. inst_get (domain ex_rows_table) e (Meta 0) \<noteq> Missing) (rows ex_rows_table))
           = [''p53'', ''FOO'']"
    by (simp add: ex_rows_table_def inst_get_def nth_cell_def str_cell_def)
  have r1: "input_genes (fst (gene_names_from_table ex_env (ex_loaded ex_spaces_table))) =
              Some [''p53'', ''FOO'']"
    using i ns by simp
  have r2: "list_all2 stripped_of [CHR 0x20 # ''p53'', CHR 0xA0 # ''FOO'' @ [CHR 0x09, CHR 0x85]]
              [''p53'', ''FOO'']"
    using s unfolding a4 ns .
  have r3: "input_genes (fst (gene_names_from_table ex_env ?w)) = Some [''p53'', ''FOO'']"
    using gene_names_from_table_convention [OF b1 b2, of ex_env] b3 b4 b5 n by simp
  from r1 r2 r3 show ?thesis by (intro conjI)
qed

subsection \<open>The output table: auxiliary facts\<close>

lemma find_last_append:
  "find_last P (xs @ ys) =
     (case find_last P ys of Some j \<Rightarrow> Some (length xs + j) | None \<Rightarrow> find_last P xs)"
  by (induction xs) (auto split: option.splits)

lemma find_last_by_var:
  "find_last (by_name k) xs = Some i \<Longrightarrow> find_last (by_var (xs ! i)) xs = Some i"
proof (induction xs arbitrary: i)
  case Nil
  then show ?case by simp
next
  case (Cons x xs)
  show ?case
  proof (cases "find_last (by_name k) xs")
    case None
    with Cons.prems have i: "i = 0" and x: "by_name k x"
      by (auto split: if_splits)
    from None have "\<forall>y \<in> set xs. name y \<noteq> k"
      by (simp add: find_last_None by_name_def)
    with x have "find_last (by_var x) xs = None"
      by (auto simp add: find_last_None by_var_def by_name_def)
    moreover have "by_var x x" by (simp add: by_var_def)
    ultimately show ?thesis using i by simp
  next
    case (Some j)
    with Cons.prems have "i = Suc j" by simp
    with Some Cons.IH show ?thesis by simp
  qed
qed

lemma find_last_by_var_None:
  "find_last (by_name (name v)) xs = None \<Longrightarrow> find_last (by_var v) xs = None"
  by (auto simp add: find_last_None by_name_def by_var_def)

lemma domain_surjective:
  "\<lparr>attributes = attributes d, class_vars = class_vars d, metas = metas d\<rparr> = (d :: domain)"
  by simp

text \<open>The column that the identifiers are written to is the column of the output domain
  that has the name of the target database.\<close>

lemma gene_var_position:
  fixes d :: domain
  assumes "dm = \<lparr>attributes = attributes d, class_vars = class_vars d,
                  metas = snd (gene_var_of w d)\<rparr>"
  shows "\<exists>p. domain_index dm (by_var (fst (gene_var_of w d))) = Some p \<and>
             domain_index dm (by_name (target_database w)) = Some p"
proof (cases "domain_index d (by_name (target_database w))")
  case None
  let ?v = "string_variable (target_database w)"
  have "by_var ?v ?v" "by_name (target_database w) ?v"
    by (simp_all add: by_var_def by_name_def string_variable_def)
  then have "find_last (by_var ?v) (metas d @ [?v]) = Some (length (metas d))"
    "find_last (by_name (target_database w)) (metas d @ [?v]) = Some (length (metas d))"
    by (simp_all add: find_last_append)
  with None assms show ?thesis
    by (simp add: gene_var_of_def domain_index_def)
next
  case (Some p)
  with assms have dm: "dm = d" and gv: "fst (gene_var_of w d) = domain_at d p"
    by (simp_all add: gene_var_of_def)
  show ?thesis
  proof (cases "find_last (by_name (target_database w)) (metas d)")
    case (Some j)
    with \<open>domain_index d (by_name (target_database w)) = Some p\<close> have p: "p = Meta j"
      by (simp add: domain_index_def)
    from find_last_by_var [OF Some] have "find_last (by_var (metas d ! j)) (metas d) = Some j" .
    with Some p gv dm show ?thesis
      by (simp add: domain_index_def domain_at_def)
  next
    case None
    with \<open>domain_index d (by_name (target_database w)) = Some p\<close> obtain i where
      i: "find_last (by_name (target_database w)) (attributes d @ class_vars d) = Some i"
      and p: "p = Col i"
      by (auto simp add: domain_index_def split: option.splits)
    let ?v = "(attributes d @ class_vars d) ! i"
    from find_last_Some [OF i] have "name ?v = target_database w"
      by (simp add: by_name_def)
    with None have "find_last (by_var ?v) (metas d) = None"
      using find_last_by_var_None [of ?v "metas d"] by simp
    moreover from find_last_by_var [OF i]
    have "find_last (by_var ?v) (attributes d @ class_vars d) = Some i" .
    ultimately show ?thesis
      using None i p gv dm by (simp add: domain_index_def domain_at_def)
  qed
qed

lemma cell_in_Str: "cell_in c xs \<Longrightarrow> \<exists>s. c = Str s \<and> s \<in> set xs"
  by (cases c) simp_all

lemma py_in_Str: "py_in v xs \<Longrightarrow> \<exists>s. v = PyStr s \<and> s \<in> set xs"
  by (cases v) simp_all

lemma known_ids_known:
  assumes "gene_matcher w = Some gm" and "get_target_ids w = Inr ids"
    and "s \<in> set (known_ids ids)"
  shows "is_known_id gm s"
  using assms by (auto simp add: get_target_ids_def known_ids_def is_known_id_def split: if_splits)

lemma rows_at_filter:
  "map (\<lambda>i. xs ! i) (filter (\<lambda>i. P (xs ! i)) [0..<length xs]) = filter P xs"
proof -
  have "filter P (map (\<lambda>i. xs ! i) [0..<length xs]) =
          map (\<lambda>i. xs ! i) (filter (P \<circ> (\<lambda>i. xs ! i)) [0..<length xs])"
    by (rule filter_map)
  then show ?thesis by (simp add: map_nth comp_def)
qed

lemma write_column_result:
  assumes "write_column E tab v ids = Inr tab1"
  shows "\<exists>p col. domain_index (domain tab) (by_var v) = Some p \<and>
           assign_column E v (length (rows tab)) ids = Inr col \<and>
           tab1 = tab\<lparr>rows := map2 (\<lambda>r c. inst_set (domain tab) r p c) (rows tab) col\<rparr>"
  using assms by (auto simp add: write_column_def split: option.splits sum.splits)

lemma table_rows_at_selected:
  "table_rows_at tab (selected_rows E tab' v sel) =
     tab\<lparr>rows := map (\<lambda>i. rows tab ! i) (selected_rows E tab' v sel)\<rparr>"
  by (simp add: table_rows_at_def)

lemma rows_selected:
  "map (\<lambda>i. rows tab ! i) (selected_rows E tab v sel) =
     filter (\<lambda>r. row_str E tab v r \<in> set sel) (rows tab)"
  unfolding selected_rows_def
  using rows_at_filter [of "rows tab" "\<lambda>r. row_str E tab v r \<in> set sel"] by simp

lemma selected_rows_Nil:
  "(selected_rows E tab v sel = []) = (filter (\<lambda>r. row_str E tab v r \<in> set sel) (rows tab) = [])"
  using rows_selected [of tab E v sel] by (metis map_is_Nil_conv)

text \<open>What \<open>commit_rows\<close> returns: the rows of the input with the identifiers written
  to the gene column, then the rows of the selection if it is not empty, then the rows of
  known genes if unmatched genes are excluded.\<close>

lemma commit_rows_result:
  assumes "commit_rows E w input ids sel = Inr tab"
  shows "\<exists>p col org.
           domain_index (domain tab) (by_name (target_database w)) = Some p \<and>
           domain_index (domain tab) (by_var (fst (gene_var_of w (domain input)))) = Some p \<and>
           domain tab = \<lparr>attributes = attributes (domain input),
                          class_vars = class_vars (domain input),
                          metas = snd (gene_var_of w (domain input))\<rparr> \<and>
           assign_column E (fst (gene_var_of w (domain input))) (length (rows input)) ids = Inr col \<and>
           get_selected_organism w = Inr org \<and>
           table_attributes tab =
             dict_set (dict_set (dict_set (table_attributes input) (TAX_ID E) (PyStr org))
                         (GENE_AS_ATTRIBUTE_NAME E) (PyBool False))
               (GENE_ID_COLUMN E) (PyStr (target_database w)) \<and>
           set (rows tab) \<subseteq> set (written_rows (domain tab) (domain input) p (rows input) col) \<and>
           (exclude_unmatched w \<longrightarrow>
              (\<forall>r \<in> set (rows tab). cell_in (inst_get (domain tab) r p) (known_ids ids))) \<and>
           (\<not> exclude_unmatched w \<longrightarrow> sel = [] \<longrightarrow>
              rows tab = written_rows (domain tab) (domain input) p (rows input) col)"
proof -
  let ?gv = "fst (gene_var_of w (domain input))"
  define dm where "dm = \<lparr>attributes = attributes (domain input),
                          class_vars = class_vars (domain input),
                          metas = snd (gene_var_of w (domain input))\<rparr>"
  from gene_var_position [OF dm_def] obtain p where
    p: "domain_index dm (by_var ?gv) = Some p" "domain_index dm (by_name (target_database w)) = Some p"
    by blast
  define tb where "tb = transform input dm"
  have tb: "domain tb = dm" "rows tb = map (convert_row dm (domain input)) (rows input)"
    "table_attributes tb = table_attributes input"
    by (simp_all add: tb_def transform_def from_table_def)
  from assms obtain tab1 where w1: "write_column E tb ?gv ids = Inr tab1"
    unfolding commit_rows_def Let_def dm_def [symmetric] tb_def [symmetric]
    by (cases "write_column E tb ?gv ids") simp_all
  from write_column_result [OF w1] p(1) tb obtain col where
    col: "assign_column E ?gv (length (rows input)) ids = Inr col"
    and tab1: "tab1 = tb\<lparr>rows := map2 (\<lambda>r c. inst_set dm r p c) (rows tb) col\<rparr>"
    by auto
  have r1: "rows tab1 = written_rows dm (domain input) p (rows input) col"
    by (simp add: tab1 tb written_rows_def zip_map1 split_def)
  have d1: "domain tab1 = dm" "table_attributes tab1 = table_attributes input"
    by (simp_all add: tab1 tb)
  from assms w1 obtain org where org: "get_selected_organism w = Inr org"
    unfolding commit_rows_def Let_def dm_def [symmetric] tb_def [symmetric]
    by (cases "get_selected_organism w") simp_all
  define tab2 where "tab2 = tab1\<lparr>table_attributes :=
      dict_set (dict_set (dict_set (table_attributes tab1) (TAX_ID E) (PyStr org))
                         (GENE_AS_ATTRIBUTE_NAME E) (PyBool False))
               (GENE_ID_COLUMN E) (PyStr (target_database w))\<rparr>"
  define tab3 where "tab3 = (if selected_rows E tab1 ?gv sel \<noteq> []
                             then table_rows_at tab2 (selected_rows E tab1 ?gv sel) else tab2)"
  have res: "commit_rows E w input ids sel =
          (if exclude_unmatched w then filter_string_list tab3 ?gv (known_ids ids) else Inr tab3)"
    unfolding commit_rows_def Let_def dm_def [symmetric] tb_def [symmetric]
    by (simp add: w1 org tab3_def tab2_def)
  have d3: "domain tab3 = dm" "table_attributes tab3 = table_attributes tab2"
    by (simp_all add: tab3_def tab2_def d1 table_rows_at_def)
  have r3: "rows tab3 = (if filter (\<lambda>r. row_str E tab1 ?gv r \<in> set sel) (rows tab1) \<noteq> []
                         then filter (\<lambda>r. row_str E tab1 ?gv r \<in> set sel) (rows tab1)
                         else rows tab1)"
    using rows_selected [of tab1 E ?gv sel] selected_rows_Nil [of E tab1 ?gv sel]
    by (simp add: tab3_def tab2_def table_rows_at_def)
  have t: "tab = tab3\<lparr>rows := filter (\<lambda>r. exclude_unmatched w \<longrightarrow>
                       cell_in (inst_get dm r p) (known_ids ids)) (rows tab3)\<rparr>"
  proof (cases "exclude_unmatched w")
    case True
    with assms res have "filter_string_list tab3 ?gv (known_ids ids) = Inr tab" by simp
    with p(1) d3(1) True show ?thesis by (auto simp add: filter_string_list_def)
  next
    case False
    with assms res show ?thesis by simp
  qed
  have dt: "domain tab = dm" using t d3 by simp
  have a1: "table_attributes tab =
      dict_set (dict_set (dict_set (table_attributes input) (TAX_ID E) (PyStr org))
                         (GENE_AS_ATTRIBUTE_NAME E) (PyBool False))
               (GENE_ID_COLUMN E) (PyStr (target_database w))"
    using t d3 by (simp add: tab2_def d1)
  have a2: "set (rows tab) \<subseteq> set (written_rows dm (domain input) p (rows input) col)"
    using t r3 r1 by auto
  have a3: "exclude_unmatched w \<longrightarrow>
              (\<forall>r \<in> set (rows tab). cell_in (inst_get dm r p) (known_ids ids))"
    using t by auto
  have a4: "\<not> exclude_unmatched w \<longrightarrow> sel = [] \<longrightarrow>
              rows tab = written_rows dm (domain input) p (rows input) col"
    using t r3 r1 by auto
  show ?thesis
    apply (rule exI [of _ p], rule exI [of _ col], rule exI [of _ org])
    apply (simp only: dt)
    apply (intro conjI)
    using p col org a1 a2 a3 a4 dm_def by simp_all
qed

lemma exclude_unknown_result:
  assumes "exclude_unknown target known cols = Inr out"
  shows "out = filter (\<lambda>c. case dict_get (var_attributes c) target of
                             None \<Rightarrow> False | Some v \<Rightarrow> py_in v known) cols"
  using assms
  by (induction cols arbitrary: out) (auto split: option.splits sum.splits)

lemma exclude_unknown_known:
  assumes "exclude_unknown target known cols = Inr out" and "c \<in> set out"
  shows "\<exists>s. dict_get (var_attributes c) target = Some (PyStr s) \<and> s \<in> set known"
proof -
  from assms have "case dict_get (var_attributes c) target of
                     None \<Rightarrow> False | Some v \<Rightarrow> py_in v known"
    by (simp add: exclude_unknown_result [OF assms(1)])
  then show ?thesis
    by (cases "dict_get (var_attributes c) target") (auto dest: py_in_Str)
qed

lemma is_selected_Nil: "is_selected target [] = (\<lambda>c. False)"
  by (rule ext) (simp add: is_selected_def split: option.splits)

lemma commit_columns_result:
  assumes "commit_columns E w input gm ids sel = Inr tab"
  shows "\<exists>org.
           get_selected_organism w = Inr org \<and>
           table_attributes tab =
             dict_set (dict_set (dict_set (table_attributes input) (TAX_ID E) (PyStr org))
                         (GENE_AS_ATTRIBUTE_NAME E) (PyBool True))
               (GENE_ID_ATTRIBUTE E) (PyStr (target_database w)) \<and>
           subseq (attributes (domain tab))
             (attributes (annotate_all w (domain input) (genes gm))) \<and>
           class_vars (domain tab) = class_vars (annotate_all w (domain input) (genes gm)) \<and>
           metas (domain tab) = metas (annotate_all w (domain input) (genes gm)) \<and>
           (exclude_unmatched w \<longrightarrow>
              (\<forall>c \<in> set (attributes (domain tab)).
                 \<exists>s. dict_get (var_attributes c) (target_database w) = Some (PyStr s) \<and>
                     s \<in> set (known_ids ids))) \<and>
           (\<not> exclude_unmatched w \<longrightarrow> sel = [] \<longrightarrow>
              attributes (domain tab) = attributes (annotate_all w (domain input) (genes gm)))"
proof -
  define d1 where "d1 = annotate_all w (domain input) (genes gm)"
  define selected where "selected = filter (is_selected (target_database w) sel) (attributes d1)"
  define output_attrs where "output_attrs = (if selected \<noteq> [] then selected else attributes d1)"
  define res where "res = (if exclude_unmatched w
      then exclude_unknown (target_database w) (known_ids ids) output_attrs else Inr output_attrs)"
  from assms obtain out where out: "res = Inr out"
    unfolding commit_columns_def Let_def d1_def [symmetric] selected_def [symmetric]
      output_attrs_def [symmetric] res_def [symmetric]
    by (cases res) simp_all
  from assms out obtain org where org: "get_selected_organism w = Inr org"
    unfolding commit_columns_def Let_def d1_def [symmetric] selected_def [symmetric]
      output_attrs_def [symmetric] res_def [symmetric]
    by (cases "get_selected_organism w") simp_all
  from assms out org have tab: "domain tab = \<lparr>attributes = out, class_vars = class_vars d1, metas = metas d1\<rparr>"
    "table_attributes tab =
             dict_set (dict_set (dict_set (table_attributes input) (TAX_ID E) (PyStr org))
                         (GENE_AS_ATTRIBUTE_NAME E) (PyBool True))
               (GENE_ID_ATTRIBUTE E) (PyStr (target_database w))"
    unfolding commit_columns_def Let_def d1_def [symmetric] selected_def [symmetric]
      output_attrs_def [symmetric] res_def [symmetric]
    by (auto simp add: from_table_def transform_def)
  have s1: "subseq output_attrs (attributes d1)"
    by (simp add: output_attrs_def selected_def)
  have s2: "subseq out output_attrs"
  proof (cases "exclude_unmatched w")
    case True
    with out have "exclude_unknown (target_database w) (known_ids ids) output_attrs = Inr out"
      by (simp add: res_def)
    from exclude_unknown_result [OF this] show ?thesis by simp
  next
    case False
    with out show ?thesis by (simp add: res_def)
  qed
  have s: "subseq out (attributes d1)"
    using s1 s2 by (rule subseq_order.trans [rotated])
  have k: "exclude_unmatched w \<longrightarrow>
              (\<forall>c \<in> set out.
                 \<exists>s. dict_get (var_attributes c) (target_database w) = Some (PyStr s) \<and>
                     s \<in> set (known_ids ids))"
    using out exclude_unknown_known [of "target_database w" "known_ids ids" output_attrs out]
    by (auto simp add: res_def)
  have e: "\<not> exclude_unmatched w \<longrightarrow> sel = [] \<longrightarrow> out = attributes d1"
    using out by (auto simp add: res_def output_attrs_def selected_def is_selected_Nil)
  show ?thesis
    apply (rule exI [of _ org])
    using org tab s k e unfolding d1_def by simp
qed

lemma commit_Data:
  assumes "commit E w sel = Inr sigs" and "Data (Some t) \<in> set sigs"
  shows "\<exists>input gm ids.
           input_data w = Some input \<and> gene_matcher w = Some gm \<and>
           get_target_ids w = Inr ids \<and> known_ids ids \<noteq> [] \<and>
           (if use_attr_names w then commit_columns E w input gm ids sel = Inr t
            else commit_rows E w input ids sel = Inr t)"
  using assms
  by (auto simp add: commit_def Let_def split: sum.splits if_splits option.splits)

lemma domain_index_Some:
  assumes "domain_index d P = Some p"
  shows "pos_valid d p \<and> P (domain_at d p)"
proof (cases "find_last P (metas d)")
  case (Some j)
  with assms have "p = Meta j" by (simp add: domain_index_def)
  with find_last_Some [OF Some] show ?thesis
    by (simp add: pos_valid_def domain_at_def)
next
  case None
  with assms obtain i where i: "find_last P (attributes d @ class_vars d) = Some i" "p = Col i"
    by (auto simp add: domain_index_def split: option.splits)
  with find_last_Some [OF i(1)] show ?thesis
    by (simp add: pos_valid_def domain_at_def)
qed

lemma same_shape_refl [simp]: "same_shape d d"
  by (simp add: same_shape_def)

lemma same_shape_update [simp]: "same_shape (update_variable d p f) d' = same_shape d d'"
  by (cases p) (simp_all add: update_variable_def same_shape_def)

lemma pos_valid_shape: "same_shape d d' \<Longrightarrow> pos_valid d p = pos_valid d' p"
  by (cases p) (simp_all add: pos_valid_def same_shape_def)

lemma update_variable_same:
  "pos_valid d p \<Longrightarrow> domain_at (update_variable d p f) p = f (domain_at d p)"
  by (cases p) (auto simp add: pos_valid_def update_variable_def domain_at_def nth_append)

lemma update_variable_other:
  "p \<noteq> q \<Longrightarrow> domain_at (update_variable d p f) q = domain_at d q"
  by (cases p; cases q)
    (auto simp add: update_variable_def domain_at_def nth_append nth_list_update)

lemma same_shape_annotate [simp]: "same_shape (annotate w d0 g d) d' = same_shape d d'"
  by (simp add: annotate_def split: option.splits)

text \<open>Two names have the same index only if they are the same name.\<close>

lemma index_same_name:
  assumes "domain_index d0 (by_name n) = Some p" and "domain_index d0 (by_name n') = Some p"
  shows "n = n'"
  using domain_index_Some [OF assms(1)] domain_index_Some [OF assms(2)]
  by (simp add: by_name_def)

lemma annotate_at:
  assumes "domain_index d0 (by_name n) = Some p" and "same_shape d d0"
  shows "domain_at (annotate w d0 g d) p =
           (if input_name g = n then annotate_variable w g (domain_at d p) else domain_at d p)"
proof (cases "domain_index d0 (by_name (input_name g))")
  case None
  with assms(1) show ?thesis by (auto simp add: annotate_def)
next
  case (Some q)
  show ?thesis
  proof (cases "input_name g = n")
    case True
    with Some assms(1) have "q = p" by simp
    moreover have "pos_valid d p"
      using domain_index_Some [OF assms(1)] pos_valid_shape [OF assms(2)] by simp
    ultimately show ?thesis
      using Some True by (simp add: annotate_def update_variable_same)
  next
    case False
    with Some assms(1) have "q \<noteq> p" using index_same_name by blast
    with Some False show ?thesis by (simp add: annotate_def update_variable_other)
  qed
qed

lemma fold_annotate_at:
  assumes "domain_index d0 (by_name n) = Some p" and "same_shape d d0"
  shows "domain_at (fold (annotate w d0) gs d) p =
           fold (annotate_variable w) (filter (\<lambda>g. input_name g = n) gs) (domain_at d p)"
  using assms(2)
proof (induction gs arbitrary: d)
  case Nil
  then show ?case by simp
next
  case (Cons g gs)
  have "same_shape (annotate w d0 g d) d0" using Cons.prems by simp
  from Cons.IH [OF this] annotate_at [OF assms(1) Cons.prems, of w g]
  show ?case by simp
qed

lemma annotate_all_at:
  assumes "domain_index d0 (by_name n) = Some p"
  shows "domain_at (annotate_all w d0 gs) p =
           fold (annotate_variable w) (filter (\<lambda>g. input_name g = n) gs) (domain_at d0 p)"
  unfolding annotate_all_def using fold_annotate_at [OF assms, of d0] by simp

lemma same_shape_annotate_all: "same_shape (annotate_all w d0 gs) d0"
proof -
  have "same_shape d d0 \<Longrightarrow> same_shape (fold (annotate w d0) gs d) d0" for d
    by (induction gs arbitrary: d) simp_all
  then show ?thesis by (simp add: annotate_all_def)
qed

lemma dict_get_set [simp]: "dict_get (dict_set d k v) k' = (if k' = k then Some v else dict_get d k')"
  by (simp add: dict_get_def dict_set_def update_conv')

lemma annotate_variable_attribute [simp]:
  "dict_get (var_attributes (annotate_variable w g v)) (target_database w) = Some (target_id g)"
  by (simp add: annotate_variable_def Let_def split: option.splits)

lemma annotate_variable_name:
  "name (annotate_variable w g v) =
     (if replace_id_with_symbol w then (case symbol g of None \<Rightarrow> name v | Some s \<Rightarrow> py_str s)
      else name v)"
  by (simp add: annotate_variable_def Let_def split: option.splits)

lemma fold_annotate_variable_attribute:
  assumes "gs \<noteq> []"
  shows "dict_get (var_attributes (fold (annotate_variable w) gs v)) (target_database w)
           = Some (target_id (last gs))"
  using assms by (cases gs rule: rev_cases) simp_all

lemma fold_annotate_variable_name:
  "name (fold (annotate_variable w) gs v) =
     (if replace_id_with_symbol w
      then (case last_symbol gs of None \<Rightarrow> name v | Some s \<Rightarrow> py_str s)
      else name v)"
  by (induction gs arbitrary: v) (simp_all add: annotate_variable_name split: option.splits)

lemma commit_shape:
  assumes "commit E w sel = Inr sigs"
  shows "\<exists>ids. get_target_ids w = Inr ids \<and>
           (if known_ids ids = [] then sigs = [Data None, Genes None]
            else \<exists>input gm t.
                   input_data w = Some input \<and> gene_matcher w = Some gm \<and>
                   (if use_attr_names w
                    then commit_columns E w input gm ids sel = Inr t \<and>
                         sigs = [Data (Some t),
                                 Genes (Some (Report gm (if sel \<noteq> [] then Some sel else None)))]
                    else commit_rows E w input ids sel = Inr t \<and>
                         sigs = [Data (Some t), Data (Some t),
                                 Genes (Some (Report gm (if sel \<noteq> [] then Some sel else None)))]))"
  using assms
  by (auto simp add: commit_def Let_def split: sum.splits if_splits option.splits)

lemma assign_column_result:
  assumes "assign_column E v n ids = Inr col"
  shows "\<exists>ids'. broadcast n ids = Some ids' \<and> store_cells E v ids' = Inr col"
  using assms by (auto simp add: assign_column_def split: option.splits)

lemma store_cells_string:
  "var_type v = StringVariable \<Longrightarrow> store_cells E v ids = Inr col \<Longrightarrow> col = map Str ids"
  by (simp add: store_cells_def)

lemma gene_var_of_None:
  "domain_index d (by_name (target_database w)) = None \<Longrightarrow>
   gene_var_of w d = (string_variable (target_database w),
                      metas d @ [string_variable (target_database w)])"
  by (simp add: gene_var_of_def)

lemma gene_var_of_Some:
  "domain_index d (by_name (target_database w)) = Some p \<Longrightarrow>
   gene_var_of w d = (domain_at d p, metas d)"
  by (simp add: gene_var_of_def)

lemma commit_rows_orientation:
  assumes "commit_rows E w input ids sel = Inr t"
  shows "domain t =
           (case domain_index (domain input) (by_name (target_database w)) of
              None \<Rightarrow> (domain input)\<lparr>metas := metas (domain input) @
                                               [string_variable (target_database w)]\<rparr>
            | Some p \<Rightarrow> domain input) \<and>
         (\<exists>p ids' col.
            broadcast (length (rows input)) ids = Some ids' \<and>
            domain_index (domain t) (by_name (target_database w)) = Some p \<and>
            store_cells E (domain_at (domain t) p) ids' = Inr col \<and>
            set (rows t) \<subseteq> set (written_rows (domain t) (domain input) p (rows input) col) \<and>
            (\<not> exclude_unmatched w \<longrightarrow> sel = [] \<longrightarrow>
               rows t = written_rows (domain t) (domain input) p (rows input) col) \<and>
            (domain_index (domain input) (by_name (target_database w)) = None \<longrightarrow>
               domain_at (domain t) p = string_variable (target_database w) \<and>
               col = map Str ids'))"
proof -
  let ?gv = "fst (gene_var_of w (domain input))"
  from commit_rows_result [OF assms] obtain p col where
    p: "domain_index (domain t) (by_name (target_database w)) = Some p"
    and pv: "domain_index (domain t) (by_var ?gv) = Some p"
    and d: "domain t = \<lparr>attributes = attributes (domain input),
                          class_vars = class_vars (domain input),
                          metas = snd (gene_var_of w (domain input))\<rparr>"
    and col: "assign_column E ?gv (length (rows input)) ids = Inr col"
    and sub: "set (rows t) \<subseteq> set (written_rows (domain t) (domain input) p (rows input) col)"
    and all: "\<not> exclude_unmatched w \<longrightarrow> sel = [] \<longrightarrow>
               rows t = written_rows (domain t) (domain input) p (rows input) col"
    by blast
  from domain_index_Some [OF pv] have gv: "domain_at (domain t) p = ?gv"
    by (simp add: by_var_def)
  from assign_column_result [OF col] obtain ids' where
    b: "broadcast (length (rows input)) ids = Some ids'" and st: "store_cells E ?gv ids' = Inr col"
    by blast
  have dom: "domain t =
           (case domain_index (domain input) (by_name (target_database w)) of
              None \<Rightarrow> (domain input)\<lparr>metas := metas (domain input) @
                                               [string_variable (target_database w)]\<rparr>
            | Some p \<Rightarrow> domain input)"
    using d by (cases "domain_index (domain input) (by_name (target_database w))")
      (simp_all add: gene_var_of_None gene_var_of_Some)
  have new: "domain_index (domain input) (by_name (target_database w)) = None \<longrightarrow>
               domain_at (domain t) p = string_variable (target_database w) \<and> col = map Str ids'"
  proof
    assume n: "domain_index (domain input) (by_name (target_database w)) = None"
    then have g: "?gv = string_variable (target_database w)"
      by (simp add: gene_var_of_None)
    then have "var_type ?gv = StringVariable" by (simp add: string_variable_def)
    from store_cells_string [OF this st] gv g
    show "domain_at (domain t) p = string_variable (target_database w) \<and> col = map Str ids'"
      by simp
  qed
  show ?thesis
    apply (rule conjI [OF dom])
    apply (rule exI [of _ p], rule exI [of _ ids'], rule exI [of _ col])
    using b p st sub all new gv by simp
qed

lemma commit_columns_orientation:
  assumes "commit_columns E w input gm ids sel = Inr t"
  shows "subseq (attributes (domain t)) (attributes (annotate_all w (domain input) (genes gm))) \<and>
         class_vars (domain t) = class_vars (annotate_all w (domain input) (genes gm)) \<and>
         metas (domain t) = metas (annotate_all w (domain input) (genes gm)) \<and>
         (\<not> exclude_unmatched w \<longrightarrow> sel = [] \<longrightarrow>
            attributes (domain t) = attributes (annotate_all w (domain input) (genes gm))) \<and>
         (\<forall>g \<in> set (genes gm). \<forall>p.
            domain_index (domain input) (by_name (input_name g)) = Some p \<longrightarrow>
            dict_get (var_attributes (domain_at (annotate_all w (domain input) (genes gm)) p))
              (target_database w) =
              Some (target_id (last (filter (\<lambda>g'. input_name g' = input_name g) (genes gm)))))"
proof -
  have "\<forall>g \<in> set (genes gm). \<forall>p.
            domain_index (domain input) (by_name (input_name g)) = Some p \<longrightarrow>
            dict_get (var_attributes (domain_at (annotate_all w (domain input) (genes gm)) p))
              (target_database w) =
              Some (target_id (last (filter (\<lambda>g'. input_name g' = input_name g) (genes gm))))"
  proof (intro ballI allI impI)
    fix g p
    assume g: "g \<in> set (genes gm)"
      and p: "domain_index (domain input) (by_name (input_name g)) = Some p"
    let ?gs = "filter (\<lambda>g'. input_name g' = input_name g) (genes gm)"
    have "?gs \<noteq> []" using g by (auto simp add: filter_empty_conv)
    then show "dict_get (var_attributes (domain_at (annotate_all w (domain input) (genes gm)) p))
              (target_database w) = Some (target_id (last ?gs))"
      unfolding annotate_all_at [OF p]
      by (rule fold_annotate_variable_attribute)
  qed
  with commit_columns_result [OF assms] show ?thesis by blast
qed

lemma domain_at_Col: "i < length (attributes d) \<Longrightarrow> domain_at d (Col i) = attributes d ! i"
  by (simp add: domain_at_def nth_append)

lemma annotate_all_name:
  assumes p: "domain_index d0 (by_name n) = Some p"
  shows "name (domain_at (annotate_all w d0 gs) p) =
           (if replace_id_with_symbol w
            then (case last_symbol (filter (\<lambda>g. input_name g = n) gs) of
                    None \<Rightarrow> n | Some s \<Rightarrow> py_str s)
            else n)"
proof -
  have "name (domain_at d0 p) = n"
    using domain_index_Some [OF p] by (simp add: by_name_def)
  then show ?thesis
    unfolding annotate_all_at [OF p]
    by (simp add: fold_annotate_variable_name split: option.splits)
qed

subsection \<open>The examples, evaluated\<close>

lemmas python_defs = digit_char_def str_nat.simps py_index_def dict_get_def dict_set_def
  strip_def is_space_def

lemmas table_defs = domain_index_def by_name_def by_var_def domain_at_def nth_cell_def
  set_cell_def inst_get_def inst_set_def convert_cell_def convert_row_def from_table_def
  transform_def get_column_view_def unique_size_def table_rows_at_def filter_string_list_def
  valid_type_def set_domain_def domain_variables_def column_unique_def

lemmas input_defs = reset_widget_state_def GeneInfoModel_clear_def UnknownGeneInfoModel_clear_def
  get_selected_organism_def is_candidate_def gene_column_identifier_def find_genes_location_def
  str_cell_def column_names_def table_bool_def gene_names_from_table_def new_gene_def
  update_gene_matcher_def on_input_option_change_def open_context_def list_index_def
  handle_input_def Let_def

lemmas commit_defs = get_target_ids_def store_cells_def broadcast_def assign_column_def
  known_ids_def string_variable_def gene_var_of_def write_column_def row_str_def
  selected_rows_def written_rows_def commit_rows_def update_variable_def target_id_def
  annotate_variable_def annotate_def annotate_all_def is_selected_def commit_columns_def
  commit_def

lemmas results_defs = get_known_genes_def has_ncbi_id_def toggle_radio_options_def
  GeneInfoModel_initialize_def UnknownGeneInfoModel_initialize_def handle_matcher_results_def

lemmas ex_defs = parse_nat_def ex_env_def ex_var_def ex_rows_table_def ex_columns_table_def
  ex_spaces_table_def ex_reuse_table_def ex_missing_table_def ex_widget_def ex_loaded_def ex_genes_def
  ex_genes_known_def ex_genes_one_def ex_genes_unknown_def ex_matcher_def ex_matched_def
  ex_rows_output_def ex_columns_output_def ex_symbol_output_def ex_spaces_output_def
  ex_reuse_output_def

lemma ex_rows_commit:
  "commit ex_env (ex_matched ex_rows_table ex_genes) [] =
     Inr [Data (Some ex_rows_output), Data (Some ex_rows_output),
          Genes (Some (Report (ex_matcher ex_genes) None))]"
  by (simp add: python_defs table_defs input_defs commit_defs ex_defs)

lemma ex_columns_commit:
  "commit ex_env (ex_matched ex_columns_table ex_genes) [] =
     Inr [Data (Some ex_columns_output), Genes (Some (Report (ex_matcher ex_genes) None))]"
  by (simp add: python_defs table_defs input_defs commit_defs ex_defs)

lemma ex_symbol_commit:
  "commit ex_env (ex_matched ex_columns_table ex_genes_known) [] =
     Inr [Data (Some ex_symbol_output), Genes (Some (Report (ex_matcher ex_genes_known) None))]"
  by (simp add: python_defs table_defs input_defs commit_defs ex_defs)

text \<open>
  The table with whitespace around its feature names: the genes \<^verbatim>\<open>p53\<close> and \<^verbatim>\<open>FOO\<close> are
  resolved, and the table that is sent has the features of the input as they were.
\<close>

lemma ex_spaces_commit:
  "input_genes (ex_matched ex_spaces_table ex_genes_known) = Some [''p53'', ''FOO'']"
  "use_attr_names (ex_matched ex_spaces_table ex_genes_known)"
  "replace_id_with_symbol (ex_matched ex_spaces_table ex_genes_known)"
  "snd (handle_matcher_results ex_env (ex_matched ex_spaces_table ex_genes_known)) =
     Inr [Data (Some ex_spaces_output), Genes (Some (Report (ex_matcher ex_genes_known) None))]"
  by (simp_all add: python_defs table_defs input_defs commit_defs results_defs ex_defs)

lemma ex_rows_state:
  "\<not> use_attr_names (ex_matched ex_rows_table ex_genes)"
  "exclude_unmatched (ex_matched ex_rows_table ex_genes)"
  "target_database (ex_matched ex_rows_table ex_genes) = ''Entrez ID''"
  "input_data (ex_matched ex_rows_table ex_genes) = Some ex_rows_table"
  "get_selected_organism (ex_matched ex_rows_table ex_genes) = Inr ''9606''"
  by (simp_all add: python_defs table_defs input_defs ex_defs)

lemma ex_columns_state:
  "use_attr_names (ex_matched ex_columns_table gs)"
  "exclude_unmatched (ex_matched ex_columns_table gs)"
  "replace_id_with_symbol (ex_matched ex_columns_table gs)"
  "target_database (ex_matched ex_columns_table gs) = ''Entrez ID''"
  "input_data (ex_matched ex_columns_table gs) = Some ex_columns_table"
  by (simp_all add: python_defs table_defs input_defs ex_defs)

subsection \<open>Excluding unmatched genes\<close>

text \<open>
  C2: when \<^verbatim>\<open>commit\<close> sends a table with \<^verbatim>\<open>exclude_unmatched\<close> on (it sends one only
  when some gene is known), the table holds no unmatched gene. With the genes in columns,
  every feature of the table has, under the key of the target database, the identifier
  of a gene that the matcher resolved. With the genes in rows, every row has such an
  identifier, and so never \<^verbatim>\<open>?\<close>, in the column named by the target database.
\<close>

theorem commit_excludes_unmatched:
  assumes "commit E w sel = Inr sigs" and "Data (Some t) \<in> set sigs"
    and "exclude_unmatched w" and "gene_matcher w = Some gm"
  shows "if use_attr_names w then
           (\<forall>c \<in> set (attributes (domain t)).
              \<exists>s. dict_get (var_attributes c) (target_database w) = Some (PyStr s) \<and>
                  is_known_id gm s)
         else
           (\<exists>p. domain_index (domain t) (by_name (target_database w)) = Some p \<and>
                (\<forall>r \<in> set (rows t).
                   \<exists>s. inst_get (domain t) r p = Str s \<and> is_known_id gm s))"
proof -
  from commit_Data [OF assms(1,2)] assms(4) obtain input ids where
    ids: "get_target_ids w = Inr ids"
    and c: "if use_attr_names w then commit_columns E w input gm ids sel = Inr t
            else commit_rows E w input ids sel = Inr t"
    by auto
  have known: "\<And>s. s \<in> set (known_ids ids) \<Longrightarrow> is_known_id gm s"
    using known_ids_known [OF assms(4) ids] .
  show ?thesis
  proof (cases "use_attr_names w")
    case True
    with c have "commit_columns E w input gm ids sel = Inr t" by simp
    from commit_columns_result [OF this] assms(3) known True show ?thesis
      by (simp, blast)
  next
    case False
    with c have "commit_rows E w input ids sel = Inr t" by simp
    from commit_rows_result [OF this] assms(3) obtain p where
      p: "domain_index (domain t) (by_name (target_database w)) = Some p"
      and r: "\<forall>r \<in> set (rows t). cell_in (inst_get (domain t) r p) (known_ids ids)"
      by blast
    have "\<forall>r \<in> set (rows t). \<exists>s. inst_get (domain t) r p = Str s \<and> is_known_id gm s"
    proof
      fix r assume "r \<in> set (rows t)"
      with r have "cell_in (inst_get (domain t) r p) (known_ids ids)" by simp
      from cell_in_Str [OF this] known
      show "\<exists>s. inst_get (domain t) r p = Str s \<and> is_known_id gm s" by blast
    qed
    with p False show ?thesis by auto
  qed
qed

text \<open>
  The examples: of two rows, and of two features, the one of the unknown gene is dropped.
\<close>

theorem commit_excludes_unmatched_witness:
  "exclude_unmatched (ex_matched ex_rows_table ex_genes) \<and>
   commit ex_env (ex_matched ex_rows_table ex_genes) [] =
     Inr [Data (Some ex_rows_output), Data (Some ex_rows_output),
          Genes (Some (Report (ex_matcher ex_genes) None))] \<and>
   (\<exists>p. domain_index (domain ex_rows_output) (by_name ''Entrez ID'') = Some p \<and>
        (\<forall>r \<in> set (rows ex_rows_output).
           \<exists>s. inst_get (domain ex_rows_output) r p = Str s \<and>
               is_known_id (ex_matcher ex_genes) s)) \<and>
   exclude_unmatched (ex_matched ex_columns_table ex_genes) \<and>
   list_all (\<lambda>c. \<exists>s. dict_get (var_attributes c) ''Entrez ID'' = Some (PyStr s) \<and>
                     is_known_id (ex_matcher ex_genes) s)
     (attributes (domain ex_columns_output))"
proof -
  have r: "Data (Some ex_rows_output) \<in> set
             [Data (Some ex_rows_output), Data (Some ex_rows_output),
              Genes (Some (Report (ex_matcher ex_genes) None))]"
    by simp
  have c: "Data (Some ex_columns_output) \<in> set
             [Data (Some ex_columns_output), Genes (Some (Report (ex_matcher ex_genes) None))]"
    by simp
  from commit_excludes_unmatched [OF ex_rows_commit r ex_rows_state(2) ex_matched_matcher]
  have a: "\<exists>p. domain_index (domain ex_rows_output) (by_name ''Entrez ID'') = Some p \<and>
        (\<forall>r \<in> set (rows ex_rows_output).
           \<exists>s. inst_get (domain ex_rows_output) r p = Str s \<and>
               is_known_id (ex_matcher ex_genes) s)"
    by (simp only: ex_rows_state if_False)
  from commit_excludes_unmatched [OF ex_columns_commit c ex_columns_state(2) ex_matched_matcher]
  have b: "list_all (\<lambda>c. \<exists>s. dict_get (var_attributes c) ''Entrez ID'' = Some (PyStr s) \<and>
                     is_known_id (ex_matcher ex_genes) s)
     (attributes (domain ex_columns_output))"
    by (simp only: ex_columns_state if_True list_all_iff)
  from a b ex_rows_commit ex_rows_state(2) ex_columns_state(2) [of ex_genes]
  show ?thesis by (intro conjI)
qed

subsection \<open>The two output channels\<close>

text \<open>
  C6, as the code has it: a \<^verbatim>\<open>commit\<close> that runs to its end sends on both channels, on
  \<^verbatim>\<open>Data\<close> (twice the same table when the genes are in rows) and then on \<^verbatim>\<open>Genes\<close>.
  When at least one gene is known it sends the output table and the report of the matcher
  for the selection; when no gene is known it sends \<^verbatim>\<open>None\<close> on both.
\<close>

theorem commit_sends_both:
  assumes "commit E w sel = Inr sigs"
  shows "\<exists>ids data report.
           get_target_ids w = Inr ids \<and>
           (sigs = [Data data, Genes report] \<or> sigs = [Data data, Data data, Genes report]) \<and>
           (if known_ids ids = [] then data = None \<and> report = None
            else \<exists>t gm. gene_matcher w = Some gm \<and> data = Some t \<and>
                   report = Some (Report gm (if sel \<noteq> [] then Some sel else None)))"
proof -
  from commit_shape [OF assms] obtain ids where ids: "get_target_ids w = Inr ids"
    and c: "if known_ids ids = [] then sigs = [Data None, Genes None]
            else \<exists>input gm t.
                   input_data w = Some input \<and> gene_matcher w = Some gm \<and>
                   (if use_attr_names w
                    then commit_columns E w input gm ids sel = Inr t \<and>
                         sigs = [Data (Some t),
                                 Genes (Some (Report gm (if sel \<noteq> [] then Some sel else None)))]
                    else commit_rows E w input ids sel = Inr t \<and>
                         sigs = [Data (Some t), Data (Some t),
                                 Genes (Some (Report gm (if sel \<noteq> [] then Some sel else None)))])"
    by blast
  show ?thesis
  proof (cases "known_ids ids = []")
    case True
    with c ids show ?thesis by simp
  next
    case False
    with c obtain gm t where gm: "gene_matcher w = Some gm"
      and s: "sigs = [Data (Some t),
                      Genes (Some (Report gm (if sel \<noteq> [] then Some sel else None)))] \<or>
              sigs = [Data (Some t), Data (Some t),
                      Genes (Some (Report gm (if sel \<noteq> [] then Some sel else None)))]"
      by (auto split: if_splits)
    show ?thesis
      apply (rule exI [of _ ids], rule exI [of _ "Some t"],
          rule exI [of _ "Some (Report gm (if sel \<noteq> [] then Some sel else None))"])
      using ids gm s False by auto
  qed
qed

theorem commit_sends_both_witness:
  "commit ex_env (ex_matched ex_rows_table ex_genes) [] =
     Inr [Data (Some ex_rows_output), Data (Some ex_rows_output),
          Genes (Some (Report (ex_matcher ex_genes) None))] \<and>
   (\<exists>ids data report.
      get_target_ids (ex_matched ex_rows_table ex_genes) = Inr ids \<and>
      ([Data (Some ex_rows_output), Data (Some ex_rows_output),
        Genes (Some (Report (ex_matcher ex_genes) None))] = [Data data, Genes report] \<or>
       [Data (Some ex_rows_output), Data (Some ex_rows_output),
        Genes (Some (Report (ex_matcher ex_genes) None))] = [Data data, Data data, Genes report]) \<and>
      (if known_ids ids = [] then data = None \<and> report = None
       else \<exists>t gm. gene_matcher (ex_matched ex_rows_table ex_genes) = Some gm \<and> data = Some t \<and>
              report = Some (Report gm (if ([] :: string list) \<noteq> [] then Some [] else None))))"
  using ex_rows_commit commit_sends_both [OF ex_rows_commit]
  by (rule conjI)

text \<open>
  The claim as stated fails when the matcher resolved no gene: neither a table nor a
  report is sent.
\<close>

theorem commit_sends_both_counterexample:
  "commit ex_env (ex_matched ex_columns_table ex_genes_unknown) [] = Inr [Data None, Genes None]"
  by (simp add: python_defs table_defs input_defs commit_defs ex_defs)

subsection \<open>The two orientations\<close>

text \<open>
  C3, as the code has it: the table that \<^verbatim>\<open>commit\<close> sends has \<^verbatim>\<open>TAX_ID\<close> set to the
  selected organism and \<^verbatim>\<open>GENE_AS_ATTRIBUTE_NAME\<close> set to \<^verbatim>\<open>use_attr_names\<close>. With the
  genes in rows, the identifiers (one for each row, or one for all rows) are written to
  the column named by the target database: to the column of that name when the input
  domain has one, and otherwise to a new string variable that is added as the last meta;
  the rows of the output are rows of the input with their identifier. With the genes in
  columns, the features of the output are features of the annotated domain, in which the
  variable that the input domain finds under the input name of a gene carries, under the
  key of the target database, the identifier (or \<^verbatim>\<open>?\<close>) of the last gene of that input
  name.
\<close>

theorem commit_orientation:
  assumes "commit E w sel = Inr sigs" and "Data (Some t) \<in> set sigs"
    and "input_data w = Some input" and "gene_matcher w = Some gm"
    and "distinct [TAX_ID E, GENE_AS_ATTRIBUTE_NAME E, GENE_ID_COLUMN E, GENE_ID_ATTRIBUTE E]"
  shows "(\<exists>org. get_selected_organism w = Inr org \<and>
               dict_get (table_attributes t) (TAX_ID E) = Some (PyStr org)) \<and>
         dict_get (table_attributes t) (GENE_AS_ATTRIBUTE_NAME E) = Some (PyBool (use_attr_names w)) \<and>
         (if use_attr_names w then
            subseq (attributes (domain t)) (attributes (annotate_all w (domain input) (genes gm))) \<and>
            class_vars (domain t) = class_vars (annotate_all w (domain input) (genes gm)) \<and>
            metas (domain t) = metas (annotate_all w (domain input) (genes gm)) \<and>
            (\<not> exclude_unmatched w \<longrightarrow> sel = [] \<longrightarrow>
               attributes (domain t) = attributes (annotate_all w (domain input) (genes gm))) \<and>
            (\<forall>g \<in> set (genes gm). \<forall>p.
               domain_index (domain input) (by_name (input_name g)) = Some p \<longrightarrow>
               dict_get (var_attributes (domain_at (annotate_all w (domain input) (genes gm)) p))
                 (target_database w) =
                 Some (target_id (last (filter (\<lambda>g'. input_name g' = input_name g) (genes gm)))))
          else
            domain t =
              (case domain_index (domain input) (by_name (target_database w)) of
                 None \<Rightarrow> (domain input)\<lparr>metas := metas (domain input) @
                                                  [string_variable (target_database w)]\<rparr>
               | Some p \<Rightarrow> domain input) \<and>
            (\<exists>ids p ids' col.
               get_target_ids w = Inr ids \<and>
               broadcast (length (rows input)) ids = Some ids' \<and>
               domain_index (domain t) (by_name (target_database w)) = Some p \<and>
               store_cells E (domain_at (domain t) p) ids' = Inr col \<and>
               set (rows t) \<subseteq> set (written_rows (domain t) (domain input) p (rows input) col) \<and>
               (\<not> exclude_unmatched w \<longrightarrow> sel = [] \<longrightarrow>
                  rows t = written_rows (domain t) (domain input) p (rows input) col) \<and>
               (domain_index (domain input) (by_name (target_database w)) = None \<longrightarrow>
                  domain_at (domain t) p = string_variable (target_database w) \<and>
                  col = map Str ids')))"
proof -
  from commit_Data [OF assms(1,2)] assms(3,4) obtain ids where
    ids: "get_target_ids w = Inr ids"
    and c: "if use_attr_names w then commit_columns E w input gm ids sel = Inr t
            else commit_rows E w input ids sel = Inr t"
    by auto
  from assms(5) have k: "distinct [TAX_ID E, GENE_AS_ATTRIBUTE_NAME E, GENE_ID_COLUMN E]"
    "distinct [TAX_ID E, GENE_AS_ATTRIBUTE_NAME E, GENE_ID_ATTRIBUTE E]"
    by simp_all
  show ?thesis
  proof (cases "use_attr_names w")
    case True
    with c have cc: "commit_columns E w input gm ids sel = Inr t" by simp
    from commit_columns_result [OF cc] obtain org where
      org: "get_selected_organism w = Inr org"
      and ta: "table_attributes t =
             dict_set (dict_set (dict_set (table_attributes input) (TAX_ID E) (PyStr org))
                         (GENE_AS_ATTRIBUTE_NAME E) (PyBool True))
               (GENE_ID_ATTRIBUTE E) (PyStr (target_database w))"
      by blast
    have a: "dict_get (table_attributes t) (TAX_ID E) = Some (PyStr org)"
      "dict_get (table_attributes t) (GENE_AS_ATTRIBUTE_NAME E) = Some (PyBool True)"
      unfolding ta using k(2) by simp_all
    have o: "\<exists>org. get_selected_organism w = Inr org \<and>
               dict_get (table_attributes t) (TAX_ID E) = Some (PyStr org)"
      using org a(1) by blast
    show ?thesis
      apply (simp only: True if_True)
      apply (rule conjI, rule o)
      apply (rule conjI, rule a(2))
      apply (rule commit_columns_orientation [OF cc])
      done
  next
    case False
    with c have cr: "commit_rows E w input ids sel = Inr t" by simp
    from commit_rows_result [OF cr] obtain org where
      org: "get_selected_organism w = Inr org"
      and ta: "table_attributes t =
             dict_set (dict_set (dict_set (table_attributes input) (TAX_ID E) (PyStr org))
                         (GENE_AS_ATTRIBUTE_NAME E) (PyBool False))
               (GENE_ID_COLUMN E) (PyStr (target_database w))"
      by blast
    have a: "dict_get (table_attributes t) (TAX_ID E) = Some (PyStr org)"
      "dict_get (table_attributes t) (GENE_AS_ATTRIBUTE_NAME E) = Some (PyBool False)"
      unfolding ta using k(1) by simp_all
    have o: "\<exists>org. get_selected_organism w = Inr org \<and>
               dict_get (table_attributes t) (TAX_ID E) = Some (PyStr org)"
      using org a(1) by blast
    note cro = commit_rows_orientation [OF cr]
    show ?thesis
      apply (simp only: False if_False)
      apply (rule conjI, rule o)
      apply (rule conjI, rule a(2))
      apply (rule conjI, rule conjunct1 [OF cro])
      apply (insert conjunct2 [OF cro])
      apply (elim exE)
      apply (rule exI [of _ ids])
      apply (intro exI)
      apply (rule conjI, rule ids)
      apply assumption
      done
  qed
qed

text \<open>
  The examples. Rows: the identifiers go to the new string meta \<^verbatim>\<open>Entrez ID\<close>. Columns:
  in the annotated domain the feature \<^verbatim>\<open>p53\<close> carries \<^verbatim>\<open>7157\<close> and the feature \<^verbatim>\<open>FOO\<close>,
  whose gene is unknown, carries \<^verbatim>\<open>?\<close>.
\<close>

theorem commit_orientation_witness:
  "commit ex_env (ex_matched ex_rows_table ex_genes) [] =
     Inr [Data (Some ex_rows_output), Data (Some ex_rows_output),
          Genes (Some (Report (ex_matcher ex_genes) None))] \<and>
   distinct [TAX_ID ex_env, GENE_AS_ATTRIBUTE_NAME ex_env, GENE_ID_COLUMN ex_env,
             GENE_ID_ATTRIBUTE ex_env] \<and>
   dict_get (table_attributes ex_rows_output) (TAX_ID ex_env) = Some (PyStr ''9606'') \<and>
   dict_get (table_attributes ex_rows_output) (GENE_AS_ATTRIBUTE_NAME ex_env)
     = Some (PyBool False) \<and>
   domain ex_rows_output =
     (domain ex_rows_table)\<lparr>metas := metas (domain ex_rows_table) @ [string_variable ''Entrez ID'']\<rparr> \<and>
   commit ex_env (ex_matched ex_columns_table ex_genes) [] =
     Inr [Data (Some ex_columns_output), Genes (Some (Report (ex_matcher ex_genes) None))] \<and>
   dict_get (table_attributes ex_columns_output) (GENE_AS_ATTRIBUTE_NAME ex_env)
     = Some (PyBool True) \<and>
   dict_get (var_attributes (domain_at
       (annotate_all (ex_matched ex_columns_table ex_genes) (domain ex_columns_table) ex_genes)
       (Col 0))) ''Entrez ID'' = Some (PyStr ''7157'') \<and>
   dict_get (var_attributes (domain_at
       (annotate_all (ex_matched ex_columns_table ex_genes) (domain ex_columns_table) ex_genes)
       (Col 1))) ''Entrez ID'' = Some (PyStr ''?'')"
proof -
  let ?w = "ex_matched ex_columns_table ex_genes"
  let ?d1 = "annotate_all ?w (domain ex_columns_table) ex_genes"
  have r: "Data (Some ex_rows_output) \<in> set
             [Data (Some ex_rows_output), Data (Some ex_rows_output),
              Genes (Some (Report (ex_matcher ex_genes) None))]"
    by simp
  have c: "Data (Some ex_columns_output) \<in> set
             [Data (Some ex_columns_output), Genes (Some (Report (ex_matcher ex_genes) None))]"
    by simp
  have k: "distinct [TAX_ID ex_env, GENE_AS_ATTRIBUTE_NAME ex_env, GENE_ID_COLUMN ex_env,
             GENE_ID_ATTRIBUTE ex_env]"
    by (simp add: ex_env_def)
  have n: "domain_index (domain ex_rows_table) (by_name ''Entrez ID'') = None"
    by (simp add: table_defs ex_defs)
  have gs: "genes (ex_matcher ex_genes) = ex_genes"
    by (simp add: ex_matcher_def)
  note rw = commit_orientation [OF ex_rows_commit r ex_rows_state(4) ex_matched_matcher k]
  note cw = commit_orientation [OF ex_columns_commit c ex_columns_state(5) ex_matched_matcher k]
  from conjunct1 [OF rw] have a1:
    "dict_get (table_attributes ex_rows_output) (TAX_ID ex_env) = Some (PyStr ''9606'')"
    by (simp add: ex_rows_state)
  from conjunct1 [OF conjunct2 [OF rw]] have a2:
    "dict_get (table_attributes ex_rows_output) (GENE_AS_ATTRIBUTE_NAME ex_env)
       = Some (PyBool False)"
    by (simp add: ex_rows_state)
  from conjunct2 [OF conjunct2 [OF rw]] have
    "domain ex_rows_output =
       (case domain_index (domain ex_rows_table) (by_name ''Entrez ID'') of
          None \<Rightarrow> (domain ex_rows_table)\<lparr>metas := metas (domain ex_rows_table) @
                                                 [string_variable ''Entrez ID'']\<rparr>
        | Some p \<Rightarrow> domain ex_rows_table)"
    by (simp only: ex_rows_state if_False)
  then have a3: "domain ex_rows_output =
     (domain ex_rows_table)\<lparr>metas := metas (domain ex_rows_table) @ [string_variable ''Entrez ID'']\<rparr>"
    by (simp only: n option.case)
  from conjunct1 [OF conjunct2 [OF cw]] have a4:
    "dict_get (table_attributes ex_columns_output) (GENE_AS_ATTRIBUTE_NAME ex_env)
       = Some (PyBool True)"
    by (simp add: ex_columns_state)
  note col = conjunct2 [OF conjunct2 [OF cw], unfolded if_P [OF ex_columns_state(1)] gs]
  note i = conjunct2 [OF conjunct2 [OF conjunct2 [OF conjunct2 [OF col]]],
      unfolded ex_columns_state(4)]
  let ?g0 = "\<lparr>input_name = ''p53'', ncbi_id = PyInt 7157, symbol = Some (PyStr ''TP53'')\<rparr>"
  let ?g1 = "\<lparr>input_name = ''FOO'', ncbi_id = PyNone, symbol = None\<rparr>"
  have "?g0 \<in> set ex_genes" by (simp add: ex_genes_def)
  with i have "domain_index (domain ex_columns_table) (by_name (input_name ?g0)) = Some (Col 0) \<longrightarrow>
        dict_get (var_attributes (domain_at ?d1 (Col 0))) ''Entrez ID'' =
          Some (target_id (last (filter (\<lambda>g'. input_name g' = input_name ?g0) ex_genes)))"
    by blast
  then have a5: "dict_get (var_attributes (domain_at ?d1 (Col 0))) ''Entrez ID'' =
                   Some (PyStr ''7157'')"
    by (simp add: table_defs ex_columns_table_def ex_var_def ex_genes_def target_id_def
        str_nat.simps digit_char_def)
  have "?g1 \<in> set ex_genes" by (simp add: ex_genes_def)
  with i have "domain_index (domain ex_columns_table) (by_name (input_name ?g1)) = Some (Col 1) \<longrightarrow>
        dict_get (var_attributes (domain_at ?d1 (Col 1))) ''Entrez ID'' =
          Some (target_id (last (filter (\<lambda>g'. input_name g' = input_name ?g1) ex_genes)))"
    by blast
  then have a6: "dict_get (var_attributes (domain_at ?d1 (Col 1))) ''Entrez ID'' =
                   Some (PyStr ''?'')"
    by (simp add: table_defs ex_columns_table_def ex_var_def ex_genes_def target_id_def)
  from ex_rows_commit k a1 a2 a3 ex_columns_commit a4 a5 a6 show ?thesis by (intro conjI)
qed

text \<open>
  The claim as stated fails in each orientation. Rows: the input already has a column named
  as the target database which is not a string meta; the identifier is written to the
  continuous feature, and the output domain has no string meta of that name. Columns: the
  gene names are the stripped feature names (line 400), and line 541 looks the stripped
  name up in the domain; the features whose names have whitespace around them are matched,
  both genes are resolved, and the table that is sent has no identifier on either feature.
\<close>

theorem commit_orientation_counterexample:
  "\<not> use_attr_names (ex_matched ex_reuse_table ex_genes_one) \<and>
   snd (handle_matcher_results ex_env (ex_matched ex_reuse_table ex_genes_one)) =
     Inr [Data (Some ex_reuse_output), Data (Some ex_reuse_output),
          Genes (Some (Report (ex_matcher ex_genes_one) None))] \<and>
   attributes (domain ex_reuse_output) = [ex_var ''Entrez ID'' ContinuousVariable] \<and>
   metas (domain ex_reuse_output) = [ex_var ''gene'' StringVariable] \<and>
   use_attr_names (ex_matched ex_spaces_table ex_genes_known) \<and>
   input_genes (ex_matched ex_spaces_table ex_genes_known) = Some (map input_name ex_genes_known) \<and>
   map target_id ex_genes_known = [PyStr ''7157'', PyStr ''3''] \<and>
   snd (handle_matcher_results ex_env (ex_matched ex_spaces_table ex_genes_known)) =
     Inr [Data (Some ex_spaces_output), Genes (Some (Report (ex_matcher ex_genes_known) None))] \<and>
   map var_attributes (attributes (domain ex_spaces_output)) = [[], []]"
proof -
  have "\<not> use_attr_names (ex_matched ex_reuse_table ex_genes_one) \<and>
        snd (handle_matcher_results ex_env (ex_matched ex_reuse_table ex_genes_one)) =
          Inr [Data (Some ex_reuse_output), Data (Some ex_reuse_output),
               Genes (Some (Report (ex_matcher ex_genes_one) None))] \<and>
        attributes (domain ex_reuse_output) = [ex_var ''Entrez ID'' ContinuousVariable] \<and>
        metas (domain ex_reuse_output) = [ex_var ''gene'' StringVariable]"
    by (simp add: python_defs table_defs input_defs commit_defs results_defs ex_defs)
  moreover have "map input_name ex_genes_known = [''p53'', ''FOO'']"
    and "map target_id ex_genes_known = [PyStr ''7157'', PyStr ''3'']"
    and "map var_attributes (attributes (domain ex_spaces_output)) = [[], []]"
    by (simp_all add: ex_genes_known_def target_id_def str_nat.simps digit_char_def
        ex_spaces_output_def ex_spaces_table_def ex_var_def)
  ultimately show ?thesis
    using ex_spaces_commit by simp
qed

subsection \<open>Feature names replaced by symbols\<close>

text \<open>
  C4, as the code has it: with the genes in columns and \<^verbatim>\<open>replace_id_with_symbol\<close> on,
  the features of the output are features of the annotated domain, and there the feature
  that the input domain finds under the input name of a gene is named by the symbol of
  the last gene of that input name that has a symbol, and keeps its name when no gene of
  that input name has one.
\<close>

theorem commit_replaces_names:
  assumes "commit E w sel = Inr sigs" and "Data (Some t) \<in> set sigs"
    and "use_attr_names w" and "replace_id_with_symbol w"
    and "input_data w = Some input" and "gene_matcher w = Some gm"
  shows "subseq (attributes (domain t)) (attributes (annotate_all w (domain input) (genes gm))) \<and>
         (\<not> exclude_unmatched w \<longrightarrow> sel = [] \<longrightarrow>
            attributes (domain t) = attributes (annotate_all w (domain input) (genes gm))) \<and>
         (\<forall>g \<in> set (genes gm). \<forall>i.
            domain_index (domain input) (by_name (input_name g)) = Some (Col i) \<longrightarrow>
            i < length (attributes (domain input)) \<longrightarrow>
            name (attributes (annotate_all w (domain input) (genes gm)) ! i) =
              (case last_symbol (filter (\<lambda>g'. input_name g' = input_name g) (genes gm)) of
                 None \<Rightarrow> input_name g
               | Some s \<Rightarrow> py_str s))"
proof -
  let ?d1 = "annotate_all w (domain input) (genes gm)"
  from commit_Data [OF assms(1,2)] assms(3,5,6) obtain ids where
    cc: "commit_columns E w input gm ids sel = Inr t"
    by auto
  note r = commit_columns_orientation [OF cc]
  have s: "subseq (attributes (domain t)) (attributes ?d1)"
    using r by (rule conjunct1)
  have e: "\<not> exclude_unmatched w \<longrightarrow> sel = [] \<longrightarrow> attributes (domain t) = attributes ?d1"
    using r by (elim conjE)
  have n: "\<forall>g \<in> set (genes gm). \<forall>i.
            domain_index (domain input) (by_name (input_name g)) = Some (Col i) \<longrightarrow>
            i < length (attributes (domain input)) \<longrightarrow>
            name (attributes ?d1 ! i) =
              (case last_symbol (filter (\<lambda>g'. input_name g' = input_name g) (genes gm)) of
                 None \<Rightarrow> input_name g
               | Some s \<Rightarrow> py_str s)"
  proof (intro ballI allI impI)
    fix g i
    assume p: "domain_index (domain input) (by_name (input_name g)) = Some (Col i)"
      and i: "i < length (attributes (domain input))"
    have "length (attributes ?d1) = length (attributes (domain input))"
      using same_shape_annotate_all [of w "domain input" "genes gm"] by (simp add: same_shape_def)
    with i have "domain_at ?d1 (Col i) = attributes ?d1 ! i"
      by (simp add: domain_at_Col)
    with annotate_all_name [OF p, of w "genes gm"] assms(4)
    show "name (attributes ?d1 ! i) =
            (case last_symbol (filter (\<lambda>g'. input_name g' = input_name g) (genes gm)) of
               None \<Rightarrow> input_name g
             | Some s \<Rightarrow> py_str s)"
      by simp
  qed
  from s e n show ?thesis by (intro conjI)
qed

text \<open>
  The example: the feature \<^verbatim>\<open>p53\<close> is named \<^verbatim>\<open>TP53\<close>, and the feature \<^verbatim>\<open>FOO\<close>, whose gene
  has no symbol, keeps its name.
\<close>

theorem commit_replaces_names_witness:
  "use_attr_names (ex_matched ex_columns_table ex_genes_known) \<and>
   replace_id_with_symbol (ex_matched ex_columns_table ex_genes_known) \<and>
   commit ex_env (ex_matched ex_columns_table ex_genes_known) [] =
     Inr [Data (Some ex_symbol_output), Genes (Some (Report (ex_matcher ex_genes_known) None))] \<and>
   subseq (attributes (domain ex_symbol_output))
     (attributes (annotate_all (ex_matched ex_columns_table ex_genes_known)
        (domain ex_columns_table) ex_genes_known)) \<and>
   name (attributes (annotate_all (ex_matched ex_columns_table ex_genes_known)
        (domain ex_columns_table) ex_genes_known) ! 0) = ''TP53'' \<and>
   name (attributes (annotate_all (ex_matched ex_columns_table ex_genes_known)
        (domain ex_columns_table) ex_genes_known) ! 1) = ''FOO''"
proof -
  let ?w = "ex_matched ex_columns_table ex_genes_known"
  let ?d1 = "annotate_all ?w (domain ex_columns_table) ex_genes_known"
  have c: "Data (Some ex_symbol_output) \<in> set
             [Data (Some ex_symbol_output), Genes (Some (Report (ex_matcher ex_genes_known) None))]"
    by simp
  note cw = commit_replaces_names [OF ex_symbol_commit c ex_columns_state(1) ex_columns_state(3)
      ex_columns_state(5) ex_matched_matcher]
  have gs: "genes (ex_matcher ex_genes_known) = ex_genes_known"
    by (simp add: ex_matcher_def)
  from conjunct1 [OF cw] have s: "subseq (attributes (domain ex_symbol_output)) (attributes ?d1)"
    by (simp only: gs)
  from conjunct2 [OF conjunct2 [OF cw]] have n:
    "\<forall>g \<in> set ex_genes_known. \<forall>i.
        domain_index (domain ex_columns_table) (by_name (input_name g)) = Some (Col i) \<longrightarrow>
        i < length (attributes (domain ex_columns_table)) \<longrightarrow>
        name (attributes ?d1 ! i) =
          (case last_symbol (filter (\<lambda>g'. input_name g' = input_name g) ex_genes_known) of
             None \<Rightarrow> input_name g
           | Some s \<Rightarrow> py_str s)"
    by (simp only: gs)
  let ?g0 = "\<lparr>input_name = ''p53'', ncbi_id = PyInt 7157, symbol = Some (PyStr ''TP53'')\<rparr>"
  let ?g1 = "\<lparr>input_name = ''FOO'', ncbi_id = PyInt 3, symbol = None\<rparr>"
  have "?g0 \<in> set ex_genes_known" by (simp add: ex_genes_known_def)
  with n have "domain_index (domain ex_columns_table) (by_name (input_name ?g0)) = Some (Col 0) \<longrightarrow>
        0 < length (attributes (domain ex_columns_table)) \<longrightarrow>
        name (attributes ?d1 ! 0) =
          (case last_symbol (filter (\<lambda>g'. input_name g' = input_name ?g0) ex_genes_known) of
             None \<Rightarrow> input_name ?g0
           | Some s \<Rightarrow> py_str s)"
    by blast
  then have n0: "name (attributes ?d1 ! 0) = ''TP53''"
    by (simp add: table_defs ex_columns_table_def ex_var_def ex_genes_known_def)
  have "?g1 \<in> set ex_genes_known" by (simp add: ex_genes_known_def)
  with n have "domain_index (domain ex_columns_table) (by_name (input_name ?g1)) = Some (Col 1) \<longrightarrow>
        1 < length (attributes (domain ex_columns_table)) \<longrightarrow>
        name (attributes ?d1 ! 1) =
          (case last_symbol (filter (\<lambda>g'. input_name g' = input_name ?g1) ex_genes_known) of
             None \<Rightarrow> input_name ?g1
           | Some s \<Rightarrow> py_str s)"
    by blast
  then have n1: "name (attributes ?d1 ! 1) = ''FOO''"
    by (simp add: table_defs ex_columns_table_def ex_var_def ex_genes_known_def)
  from ex_columns_state(1) [of ex_genes_known] ex_columns_state(3) [of ex_genes_known]
    ex_symbol_commit s n0 n1
  show ?thesis by (intro conjI)
qed

text \<open>
  The claim as stated fails in two ways. A gene without a symbol: the feature \<^verbatim>\<open>FOO\<close> has
  the input name of the second gene, which has an identifier and no symbol, and is still
  named \<^verbatim>\<open>FOO\<close> in the output. A feature name with whitespace around it: the gene name is
  the stripped feature name (line 400), line 541 looks the stripped name up in the domain,
  and the feature whose name is \<^verbatim>\<open>p53\<close> after a space is matched to the gene with the
  symbol \<^verbatim>\<open>TP53\<close> and still has its name in the table that is sent.
\<close>

theorem commit_replaces_names_counterexample:
  "replace_id_with_symbol (ex_matched ex_columns_table ex_genes_known) \<and>
   use_attr_names (ex_matched ex_columns_table ex_genes_known) \<and>
   commit ex_env (ex_matched ex_columns_table ex_genes_known) [] =
     Inr [Data (Some ex_symbol_output), Genes (Some (Report (ex_matcher ex_genes_known) None))] \<and>
   map name (attributes (domain ex_columns_table)) = [''p53'', ''FOO''] \<and>
   map input_name ex_genes_known = [''p53'', ''FOO''] \<and>
   map symbol ex_genes_known = [Some (PyStr ''TP53''), None] \<and>
   map name (attributes (domain ex_symbol_output)) = [''TP53'', ''FOO''] \<and>
   replace_id_with_symbol (ex_matched ex_spaces_table ex_genes_known) \<and>
   use_attr_names (ex_matched ex_spaces_table ex_genes_known) \<and>
   input_genes (ex_matched ex_spaces_table ex_genes_known) = Some (map input_name ex_genes_known) \<and>
   snd (handle_matcher_results ex_env (ex_matched ex_spaces_table ex_genes_known)) =
     Inr [Data (Some ex_spaces_output), Genes (Some (Report (ex_matcher ex_genes_known) None))] \<and>
   map name (attributes (domain ex_spaces_output)) =
     [CHR 0x20 # ''p53'', CHR 0xA0 # ''FOO'' @ [CHR 0x09, CHR 0x85]]"
proof -
  have "map name (attributes (domain ex_spaces_output)) =
          [CHR 0x20 # ''p53'', CHR 0xA0 # ''FOO'' @ [CHR 0x09, CHR 0x85]]"
    by (simp add: ex_spaces_output_def ex_spaces_table_def ex_var_def)
  then show ?thesis
    using ex_symbol_commit ex_columns_state [of ex_genes_known] ex_spaces_commit
    by (simp add: ex_symbol_output_def ex_genes_known_def ex_columns_table_def ex_var_def)
qed

end
